theory Spec2Isabelle
  imports Main "HOL-Library.Word"
begin

section \<open>Win32 types and constants used by api/namespace.c\<close>

text \<open>
  The unit under verification is \<^verbatim>\<open>api/namespace.c\<close>: a broker for named,
  cross-process mutexes living in a private namespace. The code is a sequence of
  Win32 and BCrypt calls. The model keeps the four file-level variables and the
  thread's last-error value in a record, appends every call the code makes to a
  log, and keeps a table of the kernel and heap objects that are currently open.
  What the operating system answers to each call is an input (the record \<open>os\<close>).
\<close>

type_synonym BYTE = "8 word"
type_synonym WCHAR = "16 word"
type_synonym DWORD = "32 word"
type_synonym NTSTATUS = "32 word"
type_synonym HANDLE = nat
type_synonym LPWSTR = nat

abbreviation NULL :: nat where
  "NULL \<equiv> 0"

text \<open>Values of \<^verbatim>\<open>winerror.h\<close> and \<^verbatim>\<open>winbase.h\<close>.\<close>

definition ERROR_PATH_NOT_FOUND :: DWORD where
  "ERROR_PATH_NOT_FOUND = 3"

definition ERROR_GEN_FAILURE :: DWORD where
  "ERROR_GEN_FAILURE = 31"

definition ERROR_INSUFFICIENT_BUFFER :: DWORD where
  "ERROR_INSUFFICIENT_BUFFER = 122"

definition ERROR_ALREADY_EXISTS :: DWORD where
  "ERROR_ALREADY_EXISTS = 183"

definition WAIT_OBJECT_0 :: DWORD where
  "WAIT_OBJECT_0 = 0"

definition WAIT_ABANDONED :: DWORD where
  "WAIT_ABANDONED = 128"

text \<open>\<^verbatim>\<open>#define BCRYPT_SUCCESS(Status) (((NTSTATUS)(Status)) >= 0)\<close>; NTSTATUS is a signed LONG.\<close>

definition BCRYPT_SUCCESS :: "NTSTATUS \<Rightarrow> bool" where
  "BCRYPT_SUCCESS Status = (0 \<le> sint Status)"

datatype WELL_KNOWN_SID_TYPE = WinLocalSystemSid | WinBuiltinAdministratorsSid

datatype NORM_FORM = NormalizationC | NormalizationD | NormalizationKC | NormalizationKD

text \<open>A wide string literal \<^verbatim>\<open>L"..."\<close>, without its terminator.\<close>

definition L :: "string \<Rightarrow> WCHAR list" where
  "L str = map (\<lambda>c. of_nat (of_char c)) str"

text \<open>The bytes of an array of WCHARs as \<^verbatim>\<open>(PUCHAR)\<close> sees them (little endian).\<close>

definition bytes_of :: "WCHAR list \<Rightarrow> BYTE list" where
  "bytes_of ws = concat (map (\<lambda>w. [ucast w, ucast (drop_bit 8 w)]) ws)"

text \<open>\<^verbatim>\<open>wcslen\<close>: the number of WCHARs before the first zero.\<close>

definition wcslen :: "WCHAR list \<Rightarrow> nat" where
  "wcslen buf = length (takeWhile (\<lambda>c. c \<noteq> 0) buf)"

text \<open>The string a \<^verbatim>\<open>LPCWSTR\<close> argument denotes: the buffer up to its first zero.\<close>

definition c_str :: "WCHAR list \<Rightarrow> WCHAR list" where
  "c_str buf = takeWhile (\<lambda>c. c \<noteq> 0) buf"

section \<open>The program state and the log of calls\<close>

datatype call =
    InitializeCriticalSection
  | EnterCriticalSection
  | LeaveCriticalSection
  | DeleteCriticalSection
  | BCryptOpenAlgorithmProvider
  | BCryptCloseAlgorithmProvider HANDLE
  | CreateWellKnownSid WELL_KNOWN_SID_TYPE
  | CreateBoundaryDescriptorW "WCHAR list"
  | AddSIDToBoundaryDescriptor HANDLE
  | DeleteBoundaryDescriptor HANDLE
  | CreatePrivateNamespaceW HANDLE "WCHAR list"
  | OpenPrivateNamespaceW HANDLE "WCHAR list"
  | ClosePrivateNamespace HANDLE
  | BCryptCreateHash HANDLE
  | BCryptHashData HANDLE "BYTE list"
  | BCryptFinishHash HANDLE
  | BCryptDestroyHash HANDLE
  | NormalizeString NORM_FORM "WCHAR list" int
  | AllocArray int
  | Free LPWSTR
  | CreateMutexW "WCHAR list"
  | WaitForSingleObject HANDLE
  | ReleaseMutex HANDLE
  | CloseHandle HANDLE
  | SetLastError DWORD
  | LOG string

text \<open>The objects the process holds open: kernel handles, BCrypt handles, heap blocks.\<close>

datatype object =
    Algorithm HANDLE
  | Boundary HANDLE
  | Namespace HANDLE
  | HashObject HANDLE
  | HeapBlock LPWSTR
  | Mutex HANDLE

text \<open>
  A \<^verbatim>\<open>CRITICAL_SECTION\<close> is usable between \<^verbatim>\<open>InitializeCriticalSection\<close> and
  \<^verbatim>\<open>DeleteCriticalSection\<close>; \<open>CS n\<close> is an initialized section entered \<open>n\<close> times by
  the running thread. Entering a section that was never initialized, or that was
  deleted, is undefined in Win32.
\<close>

datatype CRITICAL_SECTION = CS_Uninitialized | CS nat | CS_Deleted

datatype fault = Invalid_critical_section

record state =
  PrivateNamespace :: HANDLE
  BoundaryDescriptor :: HANDLE
  Initializing :: CRITICAL_SECTION
  AlgProvider :: HANDLE
  LastErrorValue :: DWORD
  calls :: "call list"
  objects :: "object list"

text \<open>
  What the environment answers. A call that returns a handle or a BOOL answers with
  the return value and the error code it leaves in the thread's last-error value when
  it fails. \<open>ans_namespace\<close> holds one pair of answers (create, open) per turn of the
  retry loop of \<^verbatim>\<open>NamespaceRuntimeInit\<close>, and \<open>ans_AllocArray\<close> one answer per turn of
  the loop of \<^verbatim>\<open>NormalizeStringAlloc\<close>: a loop that is still turning when its answers
  are used up has not returned (\<open>None\<close>).
\<close>

record os =
  IsLocalSystem :: bool
  ans_RtlNtStatusToDosError :: "NTSTATUS \<Rightarrow> DWORD"
  ans_BCryptOpenAlgorithmProvider :: "NTSTATUS \<times> HANDLE"
  ans_CreateWellKnownSid :: "bool \<times> DWORD"
  ans_CreateBoundaryDescriptorW :: "HANDLE \<times> DWORD"
  ans_AddSIDToBoundaryDescriptor :: "bool \<times> HANDLE \<times> DWORD"
  ans_namespace :: "((HANDLE \<times> DWORD) \<times> (HANDLE \<times> DWORD)) list"
  ans_BCryptCreateHash :: "NTSTATUS \<times> HANDLE"
  ans_BCryptHashData :: "NTSTATUS \<times> NTSTATUS"
  ans_BCryptFinishHash :: NTSTATUS
  ans_SHA256 :: "BYTE list \<Rightarrow> BYTE list"
  ans_NormalizeString :: "NORM_FORM \<Rightarrow> WCHAR list \<Rightarrow> int \<Rightarrow> int \<times> WCHAR list \<times> DWORD"
  ans_AllocArray :: "(LPWSTR \<times> DWORD) list"
  ans_CreateMutexW :: "HANDLE \<times> DWORD"
  ans_WaitForSingleObject :: DWORD
  ans_ReleaseMutex :: "bool \<times> DWORD"
  ans_CloseHandle :: "bool \<times> DWORD"

definition emit :: "call \<Rightarrow> state \<Rightarrow> state" where
  "emit c s = s\<lparr>calls := calls s @ [c]\<rparr>"

definition acquire :: "object \<Rightarrow> state \<Rightarrow> state" where
  "acquire ob s = s\<lparr>objects := ob # objects s\<rparr>"

definition dispose :: "object \<Rightarrow> state \<Rightarrow> state" where
  "dispose ob s = s\<lparr>objects := remove1 ob (objects s)\<rparr>"

section \<open>The calls into the operating system\<close>

definition os_SetLastError :: "DWORD \<Rightarrow> state \<Rightarrow> state" where
  "os_SetLastError e s = emit (SetLastError e) (s\<lparr>LastErrorValue := e\<rparr>)"

text \<open>
  Modelled from the spec: the macros \<^verbatim>\<open>LOG\<close>, \<^verbatim>\<open>LOG_ERROR\<close> and \<^verbatim>\<open>LOG_LAST_ERROR\<close> of
  \<^verbatim>\<open>logger.h\<close> are not among the sources. Per the spec a failure is "logged locally with
  diagnostic context" and the status surfaced is "derived from the underlying OS/crypto
  status": logging writes to the sink and leaves the last-error value as it is, and
  \<^verbatim>\<open>LOG_LAST_ERROR\<close> evaluates to the last-error value it logged.
\<close>

definition os_LOG :: "string \<Rightarrow> state \<Rightarrow> state" where
  "os_LOG fmt s = emit (LOG fmt) s"

definition LOG_LAST_ERROR :: "string \<Rightarrow> state \<Rightarrow> DWORD \<times> state" where
  "LOG_LAST_ERROR fmt s = (LastErrorValue s, os_LOG fmt s)"

definition os_InitializeCriticalSection :: "state \<Rightarrow> state" where
  "os_InitializeCriticalSection s = emit InitializeCriticalSection (s\<lparr>Initializing := CS 0\<rparr>)"

definition os_EnterCriticalSection :: "state \<Rightarrow> fault + state" where
  "os_EnterCriticalSection s =
     (case Initializing s of
        CS n \<Rightarrow> Inr (emit EnterCriticalSection (s\<lparr>Initializing := CS (Suc n)\<rparr>))
      | CS_Uninitialized \<Rightarrow> Inl Invalid_critical_section
      | CS_Deleted \<Rightarrow> Inl Invalid_critical_section)"

definition os_LeaveCriticalSection :: "state \<Rightarrow> state" where
  "os_LeaveCriticalSection s =
     emit LeaveCriticalSection
       (case Initializing s of CS n \<Rightarrow> s\<lparr>Initializing := CS (n - 1)\<rparr> | _ \<Rightarrow> s)"

definition os_DeleteCriticalSection :: "state \<Rightarrow> state" where
  "os_DeleteCriticalSection s = emit DeleteCriticalSection (s\<lparr>Initializing := CS_Deleted\<rparr>)"

text \<open>\<^verbatim>\<open>BCryptOpenAlgorithmProvider(&AlgProvider, BCRYPT_SHA256_ALGORITHM, NULL, 0)\<close>\<close>

definition os_BCryptOpenAlgorithmProvider :: "os \<Rightarrow> state \<Rightarrow> NTSTATUS \<times> state" where
  "os_BCryptOpenAlgorithmProvider os s =
     (let (Status, h) = ans_BCryptOpenAlgorithmProvider os;
          s1 = emit BCryptOpenAlgorithmProvider s
      in if BCRYPT_SUCCESS Status then (Status, acquire (Algorithm h) (s1\<lparr>AlgProvider := h\<rparr>))
         else (Status, s1))"

definition os_BCryptCloseAlgorithmProvider :: "HANDLE \<Rightarrow> state \<Rightarrow> state" where
  "os_BCryptCloseAlgorithmProvider h s =
     dispose (Algorithm h) (emit (BCryptCloseAlgorithmProvider h) s)"

definition os_CreateWellKnownSid :: "os \<Rightarrow> WELL_KNOWN_SID_TYPE \<Rightarrow> state \<Rightarrow> bool \<times> state" where
  "os_CreateWellKnownSid os ty s =
     (let (ok, e) = ans_CreateWellKnownSid os;
          s1 = emit (CreateWellKnownSid ty) s
      in if ok then (True, s1) else (False, s1\<lparr>LastErrorValue := e\<rparr>))"

definition os_CreateBoundaryDescriptorW :: "os \<Rightarrow> WCHAR list \<Rightarrow> state \<Rightarrow> HANDLE \<times> state" where
  "os_CreateBoundaryDescriptorW os name s =
     (let (h, e) = ans_CreateBoundaryDescriptorW os;
          s1 = emit (CreateBoundaryDescriptorW name) s
      in if h \<noteq> NULL then (h, acquire (Boundary h) s1) else (NULL, s1\<lparr>LastErrorValue := e\<rparr>))"

text \<open>
  \<^verbatim>\<open>AddSIDToBoundaryDescriptor(&BoundaryDescriptor, Sid)\<close> takes the handle by reference:
  when it succeeds the variable holds the handle of the extended descriptor, which
  stands for the same single object; when it fails the variable is left as it was.
\<close>

definition os_AddSIDToBoundaryDescriptor :: "os \<Rightarrow> state \<Rightarrow> bool \<times> state" where
  "os_AddSIDToBoundaryDescriptor os s =
     (let (ok, h, e) = ans_AddSIDToBoundaryDescriptor os;
          old = BoundaryDescriptor s;
          s1 = emit (AddSIDToBoundaryDescriptor old) s
      in if ok then (True, acquire (Boundary h) (dispose (Boundary old) (s1\<lparr>BoundaryDescriptor := h\<rparr>)))
         else (False, s1\<lparr>LastErrorValue := e\<rparr>))"

definition os_DeleteBoundaryDescriptor :: "HANDLE \<Rightarrow> state \<Rightarrow> state" where
  "os_DeleteBoundaryDescriptor h s = dispose (Boundary h) (emit (DeleteBoundaryDescriptor h) s)"

definition os_CreatePrivateNamespaceW ::
  "HANDLE \<times> DWORD \<Rightarrow> HANDLE \<Rightarrow> WCHAR list \<Rightarrow> state \<Rightarrow> HANDLE \<times> state" where
  "os_CreatePrivateNamespaceW ans bd name s =
     (let (h, e) = ans;
          s1 = emit (CreatePrivateNamespaceW bd name) s
      in if h \<noteq> NULL then (h, acquire (Namespace h) s1) else (NULL, s1\<lparr>LastErrorValue := e\<rparr>))"

definition os_OpenPrivateNamespaceW ::
  "HANDLE \<times> DWORD \<Rightarrow> HANDLE \<Rightarrow> WCHAR list \<Rightarrow> state \<Rightarrow> HANDLE \<times> state" where
  "os_OpenPrivateNamespaceW ans bd name s =
     (let (h, e) = ans;
          s1 = emit (OpenPrivateNamespaceW bd name) s
      in if h \<noteq> NULL then (h, acquire (Namespace h) s1) else (NULL, s1\<lparr>LastErrorValue := e\<rparr>))"

definition os_ClosePrivateNamespace :: "HANDLE \<Rightarrow> state \<Rightarrow> state" where
  "os_ClosePrivateNamespace h s = dispose (Namespace h) (emit (ClosePrivateNamespace h) s)"

definition os_BCryptCreateHash :: "os \<Rightarrow> HANDLE \<Rightarrow> state \<Rightarrow> NTSTATUS \<times> HANDLE \<times> state" where
  "os_BCryptCreateHash os alg s =
     (let (Status, h) = ans_BCryptCreateHash os;
          s1 = emit (BCryptCreateHash alg) s
      in if BCRYPT_SUCCESS Status then (Status, h, acquire (HashObject h) s1)
         else (Status, NULL, s1))"

definition os_BCryptHashData :: "NTSTATUS \<Rightarrow> HANDLE \<Rightarrow> BYTE list \<Rightarrow> state \<Rightarrow> NTSTATUS \<times> state" where
  "os_BCryptHashData Status h input s = (Status, emit (BCryptHashData h input) s)"

text \<open>
  \<^verbatim>\<open>BCryptFinishHash(Sha256, Hash, sizeof(Hash), 0)\<close>: on success the provider writes the
  SHA-256 digest of all the input the hash object was given into \<^verbatim>\<open>Hash\<close>.
\<close>

definition os_BCryptFinishHash :: "os \<Rightarrow> HANDLE \<Rightarrow> BYTE list \<Rightarrow> state \<Rightarrow> NTSTATUS \<times> BYTE list \<times> state" where
  "os_BCryptFinishHash os h hashed s =
     (ans_BCryptFinishHash os, ans_SHA256 os hashed, emit (BCryptFinishHash h) s)"

definition os_BCryptDestroyHash :: "HANDLE \<Rightarrow> state \<Rightarrow> state" where
  "os_BCryptDestroyHash h s = dispose (HashObject h) (emit (BCryptDestroyHash h) s)"

text \<open>
  \<^verbatim>\<open>NormalizeString(NormForm, Source, -1, Dst, Len)\<close> answers with its return value, the
  contents of the destination buffer after the call, and the error it leaves when the
  return value is not positive.
\<close>

definition os_NormalizeString ::
  "os \<Rightarrow> NORM_FORM \<Rightarrow> WCHAR list \<Rightarrow> int \<Rightarrow> state \<Rightarrow> int \<times> WCHAR list \<times> state" where
  "os_NormalizeString os NormForm Source Len s =
     (let (r, dst, e) = ans_NormalizeString os NormForm Source Len;
          s1 = emit (NormalizeString NormForm Source Len) s
      in if 0 < r then (r, dst, s1) else (r, dst, s1\<lparr>LastErrorValue := e\<rparr>))"

text \<open>
  Modelled from the spec: \<^verbatim>\<open>AllocArray\<close> and \<^verbatim>\<open>Free\<close> of \<^verbatim>\<open>main.h\<close> are not among the sources;
  the spec lists "an allocator for normalization buffers" among the collaborators. An
  allocation answers with a block or with \<^verbatim>\<open>NULL\<close> and an error; \<^verbatim>\<open>Free\<close> keeps the thread's
  last-error value, which the loop of \<^verbatim>\<open>NormalizeStringAlloc\<close> reads right after it.
\<close>

definition os_AllocArray :: "LPWSTR \<times> DWORD \<Rightarrow> int \<Rightarrow> state \<Rightarrow> LPWSTR \<times> state" where
  "os_AllocArray ans Len s =
     (let (p, e) = ans;
          s1 = emit (AllocArray Len) s
      in if p \<noteq> NULL then (p, acquire (HeapBlock p) s1) else (NULL, s1\<lparr>LastErrorValue := e\<rparr>))"


definition os_Free :: "LPWSTR \<Rightarrow> state \<Rightarrow> state" where
  "os_Free p s = dispose (HeapBlock p) (emit (Free p) s)"

definition os_CreateMutexW :: "os \<Rightarrow> WCHAR list \<Rightarrow> state \<Rightarrow> HANDLE \<times> state" where
  "os_CreateMutexW os name s =
     (let (h, e) = ans_CreateMutexW os;
          s1 = emit (CreateMutexW name) s
      in if h \<noteq> NULL then (h, acquire (Mutex h) s1) else (NULL, s1\<lparr>LastErrorValue := e\<rparr>))"

definition os_WaitForSingleObject :: "os \<Rightarrow> HANDLE \<Rightarrow> state \<Rightarrow> DWORD \<times> state" where
  "os_WaitForSingleObject os h s = (ans_WaitForSingleObject os, emit (WaitForSingleObject h) s)"

definition os_ReleaseMutex :: "os \<Rightarrow> HANDLE \<Rightarrow> state \<Rightarrow> bool \<times> state" where
  "os_ReleaseMutex os h s =
     (let (ok, e) = ans_ReleaseMutex os;
          s1 = emit (ReleaseMutex h) s
      in if ok then (True, s1) else (False, s1\<lparr>LastErrorValue := e\<rparr>))"

definition os_CloseHandle :: "os \<Rightarrow> HANDLE \<Rightarrow> state \<Rightarrow> bool \<times> state" where
  "os_CloseHandle os h s =
     (let (ok, e) = ans_CloseHandle os;
          s1 = emit (CloseHandle h) s
      in if ok then (True, dispose (Mutex h) s1) else (False, s1\<lparr>LastErrorValue := e\<rparr>))"

section \<open>The functions of api/namespace.c\<close>

subsection \<open>NormalizeStringAlloc\<close>

text \<open>
  The body of the \<^verbatim>\<open>for (;;)\<close> of \<^verbatim>\<open>NormalizeStringAlloc\<close>, one turn per allocation answer.
  The result is \<open>None\<close> for the C function's \<^verbatim>\<open>NULL\<close>, and otherwise the block returned
  with the contents \<^verbatim>\<open>NormalizeString\<close> left in it.
\<close>

fun NormalizeStringAlloc_loop ::
  "os \<Rightarrow> NORM_FORM \<Rightarrow> WCHAR list \<Rightarrow> (LPWSTR \<times> DWORD) list \<Rightarrow> int \<Rightarrow> state
     \<Rightarrow> ((LPWSTR \<times> WCHAR list) option \<times> state) option" where
  "NormalizeStringAlloc_loop os NormForm Source [] Len s = None"
| "NormalizeStringAlloc_loop os NormForm Source (a # rest) Len s =
     (case os_AllocArray a Len s of (Str, s1) \<Rightarrow>
        if Str = NULL then Some (None, s1)
        else
          (case os_NormalizeString os NormForm Source Len s1 of (Len', dst, s2) \<Rightarrow>
             if 0 < Len' then Some (Some (Str, dst), s2)
             else
               (let s3 = os_Free Str s2 in
                if LastErrorValue s3 \<noteq> ERROR_INSUFFICIENT_BUFFER
                then Some (None, snd (LOG_LAST_ERROR ''Failed: %s'' s3))
                else NormalizeStringAlloc_loop os NormForm Source rest (- Len') s3)))"

definition NormalizeStringAlloc ::
  "os \<Rightarrow> NORM_FORM \<Rightarrow> WCHAR list \<Rightarrow> state \<Rightarrow> ((LPWSTR \<times> WCHAR list) option \<times> state) option" where
  "NormalizeStringAlloc os NormForm Source s =
     (case os_NormalizeString os NormForm Source 0 s of (Len, dst, s1) \<Rightarrow>
        NormalizeStringAlloc_loop os NormForm Source (ans_AllocArray os) Len s1)"

subsection \<open>NamespaceRuntimeInit\<close>

text \<open>The three cleanup labels, each falling through to the next.\<close>

definition cleanupLeaveCriticalSection :: "DWORD \<Rightarrow> state \<Rightarrow> bool \<times> state" where
  "cleanupLeaveCriticalSection LastError s =
     (False, os_SetLastError LastError (os_LeaveCriticalSection s))"

definition cleanupBCryptCloseAlgorithmProvider :: "DWORD \<Rightarrow> state \<Rightarrow> bool \<times> state" where
  "cleanupBCryptCloseAlgorithmProvider LastError s =
     cleanupLeaveCriticalSection LastError (os_BCryptCloseAlgorithmProvider (AlgProvider s) s)"

definition cleanupBoundaryDescriptor :: "DWORD \<Rightarrow> state \<Rightarrow> bool \<times> state" where
  "cleanupBoundaryDescriptor LastError s =
     cleanupBCryptCloseAlgorithmProvider LastError
       (os_DeleteBoundaryDescriptor (BoundaryDescriptor s) s)"

text \<open>
  The \<^verbatim>\<open>for (;;)\<close> that creates or opens the private namespace, one turn per pair of
  answers. \<open>Inr ()\<close> is the \<^verbatim>\<open>break\<close>, \<open>Inl LastError\<close> the \<^verbatim>\<open>goto cleanupBoundaryDescriptor\<close>
  with the local \<^verbatim>\<open>LastError\<close>, the recursive call the \<^verbatim>\<open>continue\<close>.
\<close>

fun namespace_loop ::
  "((HANDLE \<times> DWORD) \<times> (HANDLE \<times> DWORD)) list \<Rightarrow> state \<Rightarrow> ((DWORD + unit) \<times> state) option" where
  "namespace_loop [] s = None"
| "namespace_loop ((create, opn) # rest) s =
     (case os_CreatePrivateNamespaceW create (BoundaryDescriptor s) (L ''WireGuard'') s of (h, s1) \<Rightarrow>
        let s2 = s1\<lparr>PrivateNamespace := h\<rparr> in
        if PrivateNamespace s2 \<noteq> NULL then Some (Inr (), s2)
        else
          let LastError = LastErrorValue s2 in
          if LastError = ERROR_ALREADY_EXISTS then
            (case os_OpenPrivateNamespaceW opn (BoundaryDescriptor s2) (L ''WireGuard'') s2 of (h', s3) \<Rightarrow>
               let s4 = s3\<lparr>PrivateNamespace := h'\<rparr> in
               if PrivateNamespace s4 \<noteq> NULL then Some (Inr (), s4)
               else
                 let LastError' = LastErrorValue s4 in
                 if LastError' = ERROR_PATH_NOT_FOUND then namespace_loop rest s4
                 else Some (Inl LastError', os_LOG ''Failed to open private namespace'' s4))
          else Some (Inl LastError, os_LOG ''Failed to create private namespace'' s2))"

definition NamespaceRuntimeInit :: "os \<Rightarrow> state \<Rightarrow> (fault + bool \<times> state) option" where
  "NamespaceRuntimeInit os s0 =
     (case os_EnterCriticalSection s0 of
        Inl f \<Rightarrow> Some (Inl f)
      | Inr s1 \<Rightarrow>
          if PrivateNamespace s1 \<noteq> NULL then Some (Inr (True, os_LeaveCriticalSection s1))
          else
            (case os_BCryptOpenAlgorithmProvider os s1 of (Status, s2) \<Rightarrow>
               if \<not> BCRYPT_SUCCESS Status then
                 Some (Inr (cleanupLeaveCriticalSection (ans_RtlNtStatusToDosError os Status)
                   (os_LOG ''Failed to open algorithm provider (status: 0x%x)'' s2)))
               else
                 (case os_CreateWellKnownSid os
                    (if IsLocalSystem os then WinLocalSystemSid else WinBuiltinAdministratorsSid) s2 of
                  (sid_ok, s3) \<Rightarrow>
                    if \<not> sid_ok then
                      (case LOG_LAST_ERROR ''Failed to create SID'' s3 of (LastError, s4) \<Rightarrow>
                         Some (Inr (cleanupBCryptCloseAlgorithmProvider LastError s4)))
                    else
                      (case os_CreateBoundaryDescriptorW os (L ''WireGuard'') s3 of (bd, s4) \<Rightarrow>
                         let s5 = s4\<lparr>BoundaryDescriptor := bd\<rparr> in
                         if BoundaryDescriptor s5 = NULL then
                           (case LOG_LAST_ERROR ''Failed to create boundary descriptor'' s5 of
                            (LastError, s6) \<Rightarrow>
                              Some (Inr (cleanupBCryptCloseAlgorithmProvider LastError s6)))
                         else
                           (case os_AddSIDToBoundaryDescriptor os s5 of (added, s6) \<Rightarrow>
                              if \<not> added then
                                (case LOG_LAST_ERROR ''Failed to add SID to boundary descriptor'' s6 of
                                 (LastError, s7) \<Rightarrow>
                                   Some (Inr (cleanupBoundaryDescriptor LastError s7)))
                              else
                                (case namespace_loop (ans_namespace os) s6 of
                                   None \<Rightarrow> None
                                 | Some (Inl LastError, s7) \<Rightarrow>
                                     Some (Inr (cleanupBoundaryDescriptor LastError s7))
                                 | Some (Inr u, s7) \<Rightarrow>
                                     Some (Inr (True, os_LeaveCriticalSection s7))))))))"

subsection \<open>NamespaceTakePoolMutex\<close>

definition mutex_label :: "WCHAR list" where
  "mutex_label = L ''WireGuard Adapter Name Mutex Stable Suffix v1 jason@zx2c4.com''"

text \<open>\<^verbatim>\<open>L"WireGuard\\WireGuard-Name-Mutex-"\<close>; the backslash is character 0x5C.\<close>

definition MutexNamePrefix :: "WCHAR list" where
  "MutexNamePrefix = L ''WireGuard'' @ [0x5C] @ L ''WireGuard-Name-Mutex-''"

text \<open>\<^verbatim>\<open>sizeof\<close> and \<^verbatim>\<open>_countof\<close> of a \<^verbatim>\<open>WCHAR\<close> array initialized from a literal count its terminator.\<close>

definition countof :: "WCHAR list \<Rightarrow> nat" where
  "countof lit = length lit + 1"

definition sizeof :: "WCHAR list \<Rightarrow> nat" where
  "sizeof lit = 2 * countof lit"

text \<open>\<^verbatim>\<open>memcpy\<close> of the first \<open>n\<close> elements of \<open>src\<close> over the start of \<open>dst\<close>.\<close>

definition memcpy :: "WCHAR list \<Rightarrow> WCHAR list \<Rightarrow> nat \<Rightarrow> WCHAR list" where
  "memcpy dst src n = take n src @ drop n dst"

definition hex_digit :: "nat \<Rightarrow> WCHAR" where
  "hex_digit n = L ''0123456789abcdef'' ! n"

text \<open>
  \<^verbatim>\<open>swprintf_s(&buf[at], 3, L"%02x", b)\<close> for a byte \<open>b\<close>: two lowercase hexadecimal digits
  and the terminator, written at \<open>at\<close>, \<open>at + 1\<close> and \<open>at + 2\<close>.
\<close>

definition swprintf_s_02x :: "WCHAR list \<Rightarrow> nat \<Rightarrow> BYTE \<Rightarrow> WCHAR list" where
  "swprintf_s_02x buf at b =
     buf[at := hex_digit (unat b div 16), at + 1 := hex_digit (unat b mod 16), at + 2 := 0]"

text \<open>
  Lines 161 to 165: the array \<^verbatim>\<open>MutexName\<close> of \<^verbatim>\<open>_countof(MutexNamePrefix) + sizeof(Hash) * 2\<close>
  elements (\<open>stack\<close> is what the array holds before it is written; every element is
  written before the name is used), the \<^verbatim>\<open>memcpy\<close> of the prefix with its terminator, and
  the loop over the 32 bytes of \<^verbatim>\<open>Hash\<close>.
\<close>

definition format_MutexName :: "WCHAR list \<Rightarrow> BYTE list \<Rightarrow> WCHAR list" where
  "format_MutexName stack Hash =
     fold (\<lambda>i MutexName. swprintf_s_02x MutexName (countof MutexNamePrefix - 1 + i * 2) (Hash ! i))
       [0..<32]
       (memcpy stack (MutexNamePrefix @ [0]) (countof MutexNamePrefix))"

definition cleanupSha256 :: "HANDLE \<Rightarrow> DWORD \<Rightarrow> state \<Rightarrow> HANDLE \<times> state" where
  "cleanupSha256 Sha256 LastError s =
     (NULL, os_SetLastError LastError (os_BCryptDestroyHash Sha256 s))"

definition cleanupPoolNorm :: "LPWSTR \<Rightarrow> HANDLE \<Rightarrow> DWORD \<Rightarrow> state \<Rightarrow> HANDLE \<times> state" where
  "cleanupPoolNorm PoolNorm Sha256 LastError s = cleanupSha256 Sha256 LastError (os_Free PoolNorm s)"

text \<open>
  \<^verbatim>\<open>NamespaceTakePoolMutex\<close> in two parts. Lines 121 to 171 either return
  (\<open>Returned\<close>) or hold a created mutex (\<open>Created\<close>: the mutex, the block of \<^verbatim>\<open>PoolNorm\<close>,
  the hash handle and the name); lines 172 to 189 wait for it.
\<close>

datatype created = Returned HANDLE state | Created HANDLE LPWSTR HANDLE "WCHAR list" state

definition NamespaceTakePoolMutex_create :: "os \<Rightarrow> WCHAR list \<Rightarrow> state \<Rightarrow> (fault + created) option" where
  "NamespaceTakePoolMutex_create os Pool s0 =
     (case NamespaceRuntimeInit os s0 of
        None \<Rightarrow> None
      | Some (Inl f) \<Rightarrow> Some (Inl f)
      | Some (Inr (initialized, s1)) \<Rightarrow>
          if \<not> initialized then Some (Inr (Returned NULL s1))
          else
            (case os_BCryptCreateHash os (AlgProvider s1) s1 of (Status, Sha256, s2) \<Rightarrow>
               if \<not> BCRYPT_SUCCESS Status then
                 Some (Inr (Returned NULL
                   (os_SetLastError (ans_RtlNtStatusToDosError os Status)
                      (os_LOG ''Failed to create hash (status: 0x%x)'' s2))))
               else
                 (case os_BCryptHashData (fst (ans_BCryptHashData os)) Sha256
                         (take (sizeof mutex_label) (bytes_of (mutex_label @ [0]))) s2 of
                  (Status, s3) \<Rightarrow>
                    if \<not> BCRYPT_SUCCESS Status then
                      (case cleanupSha256 Sha256 (ans_RtlNtStatusToDosError os Status)
                              (os_LOG ''Failed to hash data (status: 0x%x)'' s3) of
                       (r, s4) \<Rightarrow> Some (Inr (Returned r s4)))
                    else
                      (case NormalizeStringAlloc os NormalizationC Pool s3 of
                         None \<Rightarrow> None
                       | Some (None, s4) \<Rightarrow>
                           (case cleanupSha256 Sha256 (LastErrorValue s4) s4 of
                            (r, s5) \<Rightarrow> Some (Inr (Returned r s5)))
                       | Some (Some (PoolNorm, buf), s4) \<Rightarrow>
                           (case os_BCryptHashData (snd (ans_BCryptHashData os)) Sha256
                                   (take (wcslen buf + 2) (bytes_of buf)) s4 of
                            (Status, s5) \<Rightarrow>
                              if \<not> BCRYPT_SUCCESS Status then
                                (case cleanupPoolNorm PoolNorm Sha256 (ans_RtlNtStatusToDosError os Status)
                                        (os_LOG ''Failed to hash data (status: 0x%x)'' s5) of
                                 (r, s6) \<Rightarrow> Some (Inr (Returned r s6)))
                              else
                                (case os_BCryptFinishHash os Sha256
                                        (take (sizeof mutex_label) (bytes_of (mutex_label @ [0]))
                                           @ take (wcslen buf + 2) (bytes_of buf)) s5 of
                                 (Status, Hash, s6) \<Rightarrow>
                                   if \<not> BCRYPT_SUCCESS Status then
                                     (case cleanupPoolNorm PoolNorm Sha256
                                             (ans_RtlNtStatusToDosError os Status)
                                             (os_LOG ''Failed to calculate hash (status: 0x%x)'' s6) of
                                      (r, s7) \<Rightarrow> Some (Inr (Returned r s7)))
                                   else
                                     (let MutexName =
                                            format_MutexName
                                              (replicate (countof MutexNamePrefix + 32 * 2) 0) Hash
                                      in
                                      case os_CreateMutexW os (c_str MutexName) s6 of (Mutex', s7) \<Rightarrow>
                                        if Mutex' = NULL then
                                          (case LOG_LAST_ERROR ''Failed to create mutex %s'' s7 of
                                           (LastError, s8) \<Rightarrow>
                                             (case cleanupPoolNorm PoolNorm Sha256 LastError s8 of
                                              (r, s9) \<Rightarrow> Some (Inr (Returned r s9))))
                                        else
                                          Some (Inr (Created Mutex' PoolNorm Sha256
                                                       (c_str MutexName) s7)))))))))"

definition NamespaceTakePoolMutex_wait ::
  "os \<Rightarrow> HANDLE \<Rightarrow> LPWSTR \<Rightarrow> HANDLE \<Rightarrow> state \<Rightarrow> HANDLE \<times> state" where
  "NamespaceTakePoolMutex_wait os Mutex' PoolNorm Sha256 s0 =
     (case os_WaitForSingleObject os Mutex' s0 of (Result, s1) \<Rightarrow>
        if Result = WAIT_OBJECT_0 \<or> Result = WAIT_ABANDONED then
          (Mutex', os_BCryptDestroyHash Sha256 (os_Free PoolNorm s1))
        else
          cleanupPoolNorm PoolNorm Sha256 ERROR_GEN_FAILURE
            (snd (os_CloseHandle os Mutex'
               (os_LOG ''Failed to get mutex %s (status: 0x%x)'' s1))))"

definition NamespaceTakePoolMutex :: "os \<Rightarrow> WCHAR list \<Rightarrow> state \<Rightarrow> (fault + HANDLE \<times> state) option" where
  "NamespaceTakePoolMutex os Pool s =
     (case NamespaceTakePoolMutex_create os Pool s of
        None \<Rightarrow> None
      | Some (Inl f) \<Rightarrow> Some (Inl f)
      | Some (Inr (Returned r s1)) \<Rightarrow> Some (Inr (r, s1))
      | Some (Inr (Created Mutex' PoolNorm Sha256 MutexName s1)) \<Rightarrow>
          Some (Inr (NamespaceTakePoolMutex_wait os Mutex' PoolNorm Sha256 s1)))"

subsection \<open>NamespaceTakeDriverInstallationMutex\<close>

definition InstallationMutexName :: "WCHAR list" where
  "InstallationMutexName = L ''WireGuard'' @ [0x5C] @ L ''WireGuard-Driver-Installation-Mutex''"

definition NamespaceTakeDriverInstallationMutex :: "os \<Rightarrow> state \<Rightarrow> (fault + HANDLE \<times> state) option" where
  "NamespaceTakeDriverInstallationMutex os s0 =
     (case NamespaceRuntimeInit os s0 of
        None \<Rightarrow> None
      | Some (Inl f) \<Rightarrow> Some (Inl f)
      | Some (Inr (initialized, s1)) \<Rightarrow>
          if \<not> initialized then Some (Inr (NULL, s1))
          else
            (case os_CreateMutexW os InstallationMutexName s1 of (Mutex', s2) \<Rightarrow>
               if Mutex' = NULL then
                 Some (Inr (NULL, snd (LOG_LAST_ERROR ''Failed to create mutex'' s2)))
               else
                 (case os_WaitForSingleObject os Mutex' s2 of (Result, s3) \<Rightarrow>
                    if Result = WAIT_OBJECT_0 \<or> Result = WAIT_ABANDONED then Some (Inr (Mutex', s3))
                    else
                      Some (Inr (NULL,
                        os_SetLastError ERROR_GEN_FAILURE
                          (snd (os_CloseHandle os Mutex'
                             (os_LOG ''Failed to get mutex (status: 0x%x)'' s3))))))))"

subsection \<open>NamespaceReleaseMutex, NamespaceInit, NamespaceDone\<close>

text \<open>A \<^verbatim>\<open>VOID\<close> function: the model returns the state alone. Both return values are dropped.\<close>

definition NamespaceReleaseMutex :: "os \<Rightarrow> HANDLE \<Rightarrow> state \<Rightarrow> state" where
  "NamespaceReleaseMutex os Mutex' s =
     snd (os_CloseHandle os Mutex' (snd (os_ReleaseMutex os Mutex' s)))"

definition NamespaceInit :: "state \<Rightarrow> state" where
  "NamespaceInit s = os_InitializeCriticalSection s"

definition NamespaceDone :: "state \<Rightarrow> fault + state" where
  "NamespaceDone s0 =
     (case os_EnterCriticalSection s0 of
        Inl f \<Rightarrow> Inl f
      | Inr s1 \<Rightarrow>
          let s2 =
            (if PrivateNamespace s1 \<noteq> NULL then
               (os_DeleteBoundaryDescriptor (BoundaryDescriptor s1)
                  (os_ClosePrivateNamespace (PrivateNamespace s1)
                     (os_BCryptCloseAlgorithmProvider (AlgProvider s1) s1)))\<lparr>PrivateNamespace := NULL\<rparr>
             else s1)
          in Inr (os_DeleteCriticalSection (os_LeaveCriticalSection s2)))"

text \<open>The program's state at load: the statics are zero, nothing is open.\<close>

definition initial_state :: state where
  "initial_state =
     \<lparr>PrivateNamespace = NULL, BoundaryDescriptor = NULL, Initializing = CS_Uninitialized,
      AlgProvider = NULL, LastErrorValue = 0, calls = [], objects = []\<rparr>"

section \<open>Notions used to state the properties\<close>

text \<open>The calls made between two states of one run.\<close>

definition calls_since :: "state \<Rightarrow> state \<Rightarrow> call list" where
  "calls_since s s' = drop (length (calls s)) (calls s')"

text \<open>
  The objects that make up the namespace context: the algorithm provider, the boundary
  descriptor and the private namespace, newest first.
\<close>

fun is_context_object :: "object \<Rightarrow> bool" where
  "is_context_object (Algorithm h) = True"
| "is_context_object (Boundary h) = True"
| "is_context_object (Namespace h) = True"
| "is_context_object ob = False"

definition context_objects :: "state \<Rightarrow> object list" where
  "context_objects s = filter is_context_object (objects s)"

text \<open>
  Either the context is initialized and holds exactly the three objects its variables
  name, or it is uninitialized and holds none.
\<close>

definition all_or_nothing :: "state \<Rightarrow> bool" where
  "all_or_nothing s =
     (if PrivateNamespace s \<noteq> NULL
      then context_objects s =
             [Namespace (PrivateNamespace s), Boundary (BoundaryDescriptor s), Algorithm (AlgProvider s)]
      else context_objects s = [])"

text \<open>
  A turn of the namespace loop that meets the race: creation reports that the
  namespace exists, and opening it reports that it is not there.
\<close>

definition transient_race :: "(HANDLE \<times> DWORD) \<times> (HANDLE \<times> DWORD) \<Rightarrow> bool" where
  "transient_race a =
     (fst (fst a) = NULL \<and> snd (fst a) = ERROR_ALREADY_EXISTS
      \<and> fst (snd a) = NULL \<and> snd (snd a) = ERROR_PATH_NOT_FOUND)"

text \<open>The steps of \<^verbatim>\<open>NamespaceRuntimeInit\<close> before the namespace loop all succeed.\<close>

definition reaches_namespace_loop :: "os \<Rightarrow> bool" where
  "reaches_namespace_loop os =
     (BCRYPT_SUCCESS (fst (ans_BCryptOpenAlgorithmProvider os))
      \<and> fst (ans_CreateWellKnownSid os)
      \<and> fst (ans_CreateBoundaryDescriptorW os) \<noteq> NULL
      \<and> fst (ans_AddSIDToBoundaryDescriptor os))"

text \<open>
  The calls to the hash provider in \<^verbatim>\<open>NamespaceTakePoolMutex\<close> all succeed: \<^verbatim>\<open>BCryptCreateHash\<close>,
  both calls of \<^verbatim>\<open>BCryptHashData\<close> and \<^verbatim>\<open>BCryptFinishHash\<close>.
\<close>

definition hash_steps_succeed :: "os \<Rightarrow> bool" where
  "hash_steps_succeed os =
     (BCRYPT_SUCCESS (fst (ans_BCryptCreateHash os))
      \<and> BCRYPT_SUCCESS (fst (ans_BCryptHashData os))
      \<and> BCRYPT_SUCCESS (snd (ans_BCryptHashData os))
      \<and> BCRYPT_SUCCESS (ans_BCryptFinishHash os))"

text \<open>A digest written as lowercase hexadecimal, two digits per byte.\<close>

definition hex_string :: "BYTE list \<Rightarrow> WCHAR list" where
  "hex_string Hash = concat (map (\<lambda>b. [hex_digit (unat b div 16), hex_digit (unat b mod 16)]) Hash)"

text \<open>The inputs given to \<^verbatim>\<open>BCryptHashData\<close>, in order.\<close>

fun hashed_inputs :: "call list \<Rightarrow> BYTE list list" where
  "hashed_inputs [] = []"
| "hashed_inputs (BCryptHashData h input # cs) = input # hashed_inputs cs"
| "hashed_inputs (c # cs) = hashed_inputs cs"

text \<open>The names given to \<^verbatim>\<open>CreateMutexW\<close>, in order.\<close>

fun mutex_names :: "call list \<Rightarrow> WCHAR list list" where
  "mutex_names [] = []"
| "mutex_names (CreateMutexW name # cs) = name # mutex_names cs"
| "mutex_names (c # cs) = mutex_names cs"

text \<open>The state after \<open>k\<close> turns of the namespace loop that each met the race.\<close>

primrec after_races :: "nat \<Rightarrow> state \<Rightarrow> state" where
  "after_races 0 s = s"
| "after_races (Suc k) s =
     after_races k
       (s\<lparr>calls := calls s @ [CreatePrivateNamespaceW (BoundaryDescriptor s) (L ''WireGuard''),
                               OpenPrivateNamespaceW (BoundaryDescriptor s) (L ''WireGuard'')],
          LastErrorValue := ERROR_PATH_NOT_FOUND, PrivateNamespace := NULL\<rparr>)"

subsection \<open>A small environment to run the functions in\<close>

text \<open>
  A stand-in for the canonical composition of \<^verbatim>\<open>NormalizeString\<close> that knows one pair:
  \<open>e\<close> (0x65) followed by the combining acute accent (0x301) composes to 0xE9.
\<close>

fun compose_acute :: "WCHAR list \<Rightarrow> WCHAR list" where
  "compose_acute (a # b # rest) =
     (if a = 0x65 \<and> b = 0x301 then 0xE9 # compose_acute rest else a # compose_acute (b # rest))"
| "compose_acute ws = ws"

text \<open>
  With a length of 0 it estimates from the length of the source; with a buffer that is
  large enough it writes the composed string, its terminator and fill; otherwise it
  asks for more room.
\<close>

definition test_NormalizeString :: "NORM_FORM \<Rightarrow> WCHAR list \<Rightarrow> int \<Rightarrow> int \<times> WCHAR list \<times> DWORD" where
  "test_NormalizeString NormForm Source Len =
     (let n = compose_acute Source in
      if Len = 0 then (int (length Source) + 1, [], 0)
      else if int (length n) < Len
        then (int (length n) + 1, n @ [0] @ replicate (nat Len - length n - 1) 0xCDCD, 0)
        else (- (int (length n) + 1), [], ERROR_INSUFFICIENT_BUFFER))"

text \<open>A stand-in for the digest: 32 bytes that depend on the input's first bytes and length.\<close>

definition test_digest :: "BYTE list \<Rightarrow> BYTE list" where
  "test_digest input = take 31 (input @ replicate 31 0) @ [of_nat (length input)]"

definition test_os :: os where
  "test_os =
     \<lparr>IsLocalSystem = True,
      ans_RtlNtStatusToDosError = (\<lambda>Status. 317),
      ans_BCryptOpenAlgorithmProvider = (0, 16),
      ans_CreateWellKnownSid = (True, 0),
      ans_CreateBoundaryDescriptorW = (32, 0),
      ans_AddSIDToBoundaryDescriptor = (True, 33, 0),
      ans_namespace = [((48, 0), (0, 0))],
      ans_BCryptCreateHash = (0, 64),
      ans_BCryptHashData = (0, 0),
      ans_BCryptFinishHash = 0,
      ans_SHA256 = test_digest,
      ans_NormalizeString = test_NormalizeString,
      ans_AllocArray = [(4096, 0)],
      ans_CreateMutexW = (80, 0),
      ans_WaitForSingleObject = WAIT_OBJECT_0,
      ans_ReleaseMutex = (True, 0),
      ans_CloseHandle = (True, 0)\<rparr>"

text \<open>The state once \<^verbatim>\<open>NamespaceInit\<close> has run at load.\<close>

definition loaded_state :: state where
  "loaded_state = NamespaceInit initial_state"

text \<open>
  Variants of the environment: one in which the namespace loop meets the race twice before
  the namespace can be opened, one in which the creation of the namespace is denied
  (\<^verbatim>\<open>ERROR_ACCESS_DENIED\<close>, 5), one in which the wait fails (\<^verbatim>\<open>WAIT_FAILED\<close>); the states of the
  test run after initialization and after \<^verbatim>\<open>NamespaceDone\<close>; and two spellings of one name.
\<close>

definition race_os :: os where
  "race_os = test_os\<lparr>ans_namespace :=
     [((NULL, ERROR_ALREADY_EXISTS), (NULL, ERROR_PATH_NOT_FOUND)),
      ((NULL, ERROR_ALREADY_EXISTS), (NULL, ERROR_PATH_NOT_FOUND)),
      ((NULL, ERROR_ALREADY_EXISTS), (49, 0))]\<rparr>"

definition denied_os :: os where
  "denied_os = test_os\<lparr>ans_namespace := [((NULL, 5), (NULL, 0))]\<rparr>"

definition failed_wait_os :: os where
  "failed_wait_os = test_os\<lparr>ans_WaitForSingleObject := 0xFFFFFFFF\<rparr>"

definition initialized_state :: state where
  "initialized_state =
     \<lparr>PrivateNamespace = 48, BoundaryDescriptor = 33, Initializing = CS 0, AlgProvider = 16,
      LastErrorValue = 0,
      calls = [InitializeCriticalSection, EnterCriticalSection, BCryptOpenAlgorithmProvider,
               CreateWellKnownSid WinLocalSystemSid, CreateBoundaryDescriptorW (L ''WireGuard''),
               AddSIDToBoundaryDescriptor 32, CreatePrivateNamespaceW 33 (L ''WireGuard''),
               LeaveCriticalSection],
      objects = [Namespace 48, Boundary 33, Algorithm 16]\<rparr>"

definition torn_down_state :: state where
  "torn_down_state =
     \<lparr>PrivateNamespace = NULL, BoundaryDescriptor = 33, Initializing = CS_Deleted, AlgProvider = 16,
      LastErrorValue = 0,
      calls = [InitializeCriticalSection, EnterCriticalSection, BCryptOpenAlgorithmProvider,
               CreateWellKnownSid WinLocalSystemSid, CreateBoundaryDescriptorW (L ''WireGuard''),
               AddSIDToBoundaryDescriptor 32, CreatePrivateNamespaceW 33 (L ''WireGuard''),
               LeaveCriticalSection,
               EnterCriticalSection, BCryptCloseAlgorithmProvider 16, ClosePrivateNamespace 48,
               DeleteBoundaryDescriptor 33, LeaveCriticalSection, DeleteCriticalSection],
      objects = []\<rparr>"



section \<open>Unfolding the calls\<close>

lemmas os_call_defs =
  emit_def acquire_def dispose_def os_SetLastError_def os_LOG_def LOG_LAST_ERROR_def
  os_InitializeCriticalSection_def os_EnterCriticalSection_def os_LeaveCriticalSection_def
  os_DeleteCriticalSection_def os_BCryptOpenAlgorithmProvider_def
  os_BCryptCloseAlgorithmProvider_def os_CreateWellKnownSid_def os_CreateBoundaryDescriptorW_def
  os_AddSIDToBoundaryDescriptor_def os_DeleteBoundaryDescriptor_def os_CreatePrivateNamespaceW_def
  os_OpenPrivateNamespaceW_def os_ClosePrivateNamespace_def os_BCryptCreateHash_def
  os_BCryptHashData_def os_BCryptFinishHash_def os_BCryptDestroyHash_def os_NormalizeString_def
  os_AllocArray_def os_Free_def os_CreateMutexW_def os_WaitForSingleObject_def
  os_ReleaseMutex_def os_CloseHandle_def

lemmas cleanup_defs =
  cleanupLeaveCriticalSection_def cleanupBCryptCloseAlgorithmProvider_def
  cleanupBoundaryDescriptor_def cleanupSha256_def cleanupPoolNorm_def

section \<open>The namespace loop, turn by turn\<close>

lemma loop_created:
  "fst create \<noteq> NULL \<Longrightarrow>
   namespace_loop ((create, opn) # rest) s =
     Some (Inr (), s\<lparr>calls := calls s @ [CreatePrivateNamespaceW (BoundaryDescriptor s) (L ''WireGuard'')],
                      objects := Namespace (fst create) # objects s,
                      PrivateNamespace := fst create\<rparr>)"
  by (cases create) (simp add: os_call_defs)

lemma loop_create_failed:
  "fst create = NULL \<Longrightarrow> snd create \<noteq> ERROR_ALREADY_EXISTS \<Longrightarrow>
   namespace_loop ((create, opn) # rest) s =
     Some (Inl (snd create),
           s\<lparr>calls := calls s @ [CreatePrivateNamespaceW (BoundaryDescriptor s) (L ''WireGuard''),
                                  LOG ''Failed to create private namespace''],
             LastErrorValue := snd create, PrivateNamespace := NULL\<rparr>)"
  by (cases create) (simp add: os_call_defs)

lemma loop_opened:
  "fst create = NULL \<Longrightarrow> snd create = ERROR_ALREADY_EXISTS \<Longrightarrow> fst opn \<noteq> NULL \<Longrightarrow>
   namespace_loop ((create, opn) # rest) s =
     Some (Inr (), s\<lparr>calls := calls s @ [CreatePrivateNamespaceW (BoundaryDescriptor s) (L ''WireGuard''),
                                          OpenPrivateNamespaceW (BoundaryDescriptor s) (L ''WireGuard'')],
                      LastErrorValue := ERROR_ALREADY_EXISTS,
                      objects := Namespace (fst opn) # objects s,
                      PrivateNamespace := fst opn\<rparr>)"
  by (cases create; cases opn) (simp add: os_call_defs)

lemma loop_open_failed:
  "fst create = NULL \<Longrightarrow> snd create = ERROR_ALREADY_EXISTS \<Longrightarrow> fst opn = NULL \<Longrightarrow>
   snd opn \<noteq> ERROR_PATH_NOT_FOUND \<Longrightarrow>
   namespace_loop ((create, opn) # rest) s =
     Some (Inl (snd opn),
           s\<lparr>calls := calls s @ [CreatePrivateNamespaceW (BoundaryDescriptor s) (L ''WireGuard''),
                                  OpenPrivateNamespaceW (BoundaryDescriptor s) (L ''WireGuard''),
                                  LOG ''Failed to open private namespace''],
             LastErrorValue := snd opn, PrivateNamespace := NULL\<rparr>)"
  by (cases create; cases opn) (simp add: os_call_defs)

lemma loop_continue:
  "transient_race a \<Longrightarrow>
   namespace_loop (a # rest) s =
     namespace_loop rest
       (s\<lparr>calls := calls s @ [CreatePrivateNamespaceW (BoundaryDescriptor s) (L ''WireGuard''),
                               OpenPrivateNamespaceW (BoundaryDescriptor s) (L ''WireGuard'')],
          LastErrorValue := ERROR_PATH_NOT_FOUND, PrivateNamespace := NULL\<rparr>)"
  by (cases a; cases "fst a"; cases "snd a") (simp add: os_call_defs transient_race_def)

lemma attempt_cases [case_names created create_failed opened open_failed race]:
  fixes create opn :: "HANDLE \<times> DWORD"
  obtains "fst create \<noteq> NULL"
  | "fst create = NULL" "snd create \<noteq> ERROR_ALREADY_EXISTS"
  | "fst create = NULL" "snd create = ERROR_ALREADY_EXISTS" "fst opn \<noteq> NULL"
  | "fst create = NULL" "snd create = ERROR_ALREADY_EXISTS" "fst opn = NULL"
      "snd opn \<noteq> ERROR_PATH_NOT_FOUND"
  | "transient_race (create, opn)"
  unfolding transient_race_def by fastforce

lemma after_races_fields:
  "BoundaryDescriptor (after_races k s) = BoundaryDescriptor s
   \<and> AlgProvider (after_races k s) = AlgProvider s
   \<and> Initializing (after_races k s) = Initializing s
   \<and> objects (after_races k s) = objects s
   \<and> (PrivateNamespace s = NULL \<longrightarrow> PrivateNamespace (after_races k s) = NULL)
   \<and> calls (after_races k s) =
       calls s @ concat (replicate k [CreatePrivateNamespaceW (BoundaryDescriptor s) (L ''WireGuard''),
                                      OpenPrivateNamespaceW (BoundaryDescriptor s) (L ''WireGuard'')])"
  by (induction k arbitrary: s) simp_all

lemma namespace_loop_races:
  "\<forall>a\<in>set races. transient_race a \<Longrightarrow>
   namespace_loop (races @ rest) s = namespace_loop rest (after_races (length races) s)"
proof (induction races arbitrary: s)
  case Nil
  show ?case by simp
next
  case (Cons a races)
  then have "transient_race a" and rest: "\<forall>a\<in>set races. transient_race a" by simp_all
  show ?case
    using loop_continue [OF \<open>transient_race a\<close>, of "races @ rest" s] Cons.IH [OF rest]
    by simp
qed

lemma namespace_loop_only_races:
  "\<forall>a\<in>set races. transient_race a \<Longrightarrow> namespace_loop races s = None"
  using namespace_loop_races [of races "[]" s] by simp

section \<open>NamespaceRuntimeInit, step by step\<close>

lemma init_invalid:
  "Initializing s = CS_Uninitialized \<or> Initializing s = CS_Deleted \<Longrightarrow>
   NamespaceRuntimeInit os s = Some (Inl Invalid_critical_section)"
  by (auto simp: NamespaceRuntimeInit_def os_EnterCriticalSection_def)

lemma init_fast_path:
  "Initializing s = CS n \<Longrightarrow> PrivateNamespace s \<noteq> NULL \<Longrightarrow>
   NamespaceRuntimeInit os s =
     Some (Inr (True, s\<lparr>calls := calls s @ [EnterCriticalSection, LeaveCriticalSection]\<rparr>))"
  by (cases s) (simp add: NamespaceRuntimeInit_def os_call_defs)

lemma init_open_failed:
  assumes "Initializing s = CS n" "PrivateNamespace s = NULL"
    and "\<not> BCRYPT_SUCCESS (fst (ans_BCryptOpenAlgorithmProvider os))"
  shows "NamespaceRuntimeInit os s =
     Some (Inr (False,
       s\<lparr>calls := calls s @
            [EnterCriticalSection, BCryptOpenAlgorithmProvider,
             LOG ''Failed to open algorithm provider (status: 0x%x)'',
             LeaveCriticalSection,
             SetLastError (ans_RtlNtStatusToDosError os (fst (ans_BCryptOpenAlgorithmProvider os)))],
         LastErrorValue := ans_RtlNtStatusToDosError os (fst (ans_BCryptOpenAlgorithmProvider os))\<rparr>))"
  using assms
  by (cases s; cases "ans_BCryptOpenAlgorithmProvider os")
     (simp add: NamespaceRuntimeInit_def os_call_defs cleanup_defs)

lemma init_sid_failed:
  assumes "Initializing s = CS n" "PrivateNamespace s = NULL"
    and "BCRYPT_SUCCESS (fst (ans_BCryptOpenAlgorithmProvider os))"
    and "\<not> fst (ans_CreateWellKnownSid os)"
  shows "NamespaceRuntimeInit os s =
     Some (Inr (False,
       s\<lparr>calls := calls s @
            [EnterCriticalSection, BCryptOpenAlgorithmProvider,
             CreateWellKnownSid (if IsLocalSystem os then WinLocalSystemSid else WinBuiltinAdministratorsSid),
             LOG ''Failed to create SID'',
             BCryptCloseAlgorithmProvider (snd (ans_BCryptOpenAlgorithmProvider os)),
             LeaveCriticalSection,
             SetLastError (snd (ans_CreateWellKnownSid os))],
         AlgProvider := snd (ans_BCryptOpenAlgorithmProvider os),
         LastErrorValue := snd (ans_CreateWellKnownSid os)\<rparr>))"
  using assms
  by (cases s; cases "ans_BCryptOpenAlgorithmProvider os"; cases "ans_CreateWellKnownSid os")
     (simp add: NamespaceRuntimeInit_def os_call_defs cleanup_defs)

lemma init_boundary_failed:
  assumes "Initializing s = CS n" "PrivateNamespace s = NULL"
    and "BCRYPT_SUCCESS (fst (ans_BCryptOpenAlgorithmProvider os))"
    and "fst (ans_CreateWellKnownSid os)"
    and "fst (ans_CreateBoundaryDescriptorW os) = NULL"
  shows "NamespaceRuntimeInit os s =
     Some (Inr (False,
       s\<lparr>calls := calls s @
            [EnterCriticalSection, BCryptOpenAlgorithmProvider,
             CreateWellKnownSid (if IsLocalSystem os then WinLocalSystemSid else WinBuiltinAdministratorsSid),
             CreateBoundaryDescriptorW (L ''WireGuard''),
             LOG ''Failed to create boundary descriptor'',
             BCryptCloseAlgorithmProvider (snd (ans_BCryptOpenAlgorithmProvider os)),
             LeaveCriticalSection,
             SetLastError (snd (ans_CreateBoundaryDescriptorW os))],
         AlgProvider := snd (ans_BCryptOpenAlgorithmProvider os),
         BoundaryDescriptor := NULL,
         LastErrorValue := snd (ans_CreateBoundaryDescriptorW os)\<rparr>))"
  using assms
  by (cases s; cases "ans_BCryptOpenAlgorithmProvider os"; cases "ans_CreateWellKnownSid os";
      cases "ans_CreateBoundaryDescriptorW os")
     (simp add: NamespaceRuntimeInit_def os_call_defs cleanup_defs)

lemma init_add_sid_failed:
  assumes "Initializing s = CS n" "PrivateNamespace s = NULL"
    and "BCRYPT_SUCCESS (fst (ans_BCryptOpenAlgorithmProvider os))"
    and "fst (ans_CreateWellKnownSid os)"
    and "fst (ans_CreateBoundaryDescriptorW os) \<noteq> NULL"
    and "\<not> fst (ans_AddSIDToBoundaryDescriptor os)"
  shows "NamespaceRuntimeInit os s =
     Some (Inr (False,
       s\<lparr>calls := calls s @
            [EnterCriticalSection, BCryptOpenAlgorithmProvider,
             CreateWellKnownSid (if IsLocalSystem os then WinLocalSystemSid else WinBuiltinAdministratorsSid),
             CreateBoundaryDescriptorW (L ''WireGuard''),
             AddSIDToBoundaryDescriptor (fst (ans_CreateBoundaryDescriptorW os)),
             LOG ''Failed to add SID to boundary descriptor'',
             DeleteBoundaryDescriptor (fst (ans_CreateBoundaryDescriptorW os)),
             BCryptCloseAlgorithmProvider (snd (ans_BCryptOpenAlgorithmProvider os)),
             LeaveCriticalSection,
             SetLastError (snd (snd (ans_AddSIDToBoundaryDescriptor os)))],
         AlgProvider := snd (ans_BCryptOpenAlgorithmProvider os),
         BoundaryDescriptor := fst (ans_CreateBoundaryDescriptorW os),
         LastErrorValue := snd (snd (ans_AddSIDToBoundaryDescriptor os))\<rparr>))"
  using assms
  by (cases s; cases "ans_BCryptOpenAlgorithmProvider os"; cases "ans_CreateWellKnownSid os";
      cases "ans_CreateBoundaryDescriptorW os"; cases "ans_AddSIDToBoundaryDescriptor os")
     (simp add: NamespaceRuntimeInit_def os_call_defs cleanup_defs)

lemma init_reaches_loop:
  fixes s6
  defines "s6 \<equiv> \<lambda>os s n.
       s\<lparr>calls := calls s @
            [EnterCriticalSection, BCryptOpenAlgorithmProvider,
             CreateWellKnownSid (if IsLocalSystem os then WinLocalSystemSid else WinBuiltinAdministratorsSid),
             CreateBoundaryDescriptorW (L ''WireGuard''),
             AddSIDToBoundaryDescriptor (fst (ans_CreateBoundaryDescriptorW os))],
         Initializing := CS (Suc n),
         AlgProvider := snd (ans_BCryptOpenAlgorithmProvider os),
         BoundaryDescriptor := fst (snd (ans_AddSIDToBoundaryDescriptor os)),
         objects := Boundary (fst (snd (ans_AddSIDToBoundaryDescriptor os)))
                      # Algorithm (snd (ans_BCryptOpenAlgorithmProvider os)) # objects s\<rparr>"
  assumes "Initializing s = CS n" "PrivateNamespace s = NULL" "reaches_namespace_loop os"
  shows "NamespaceRuntimeInit os s =
     (case namespace_loop (ans_namespace os) (s6 os s n) of
        None \<Rightarrow> None
      | Some (Inl LastError, s7) \<Rightarrow> Some (Inr (cleanupBoundaryDescriptor LastError s7))
      | Some (Inr u, s7) \<Rightarrow> Some (Inr (True, os_LeaveCriticalSection s7)))"
  using assms(2-)
  by (cases s; cases "ans_BCryptOpenAlgorithmProvider os"; cases "ans_CreateWellKnownSid os";
      cases "ans_CreateBoundaryDescriptorW os"; cases "ans_AddSIDToBoundaryDescriptor os")
     (simp add: s6_def NamespaceRuntimeInit_def os_call_defs reaches_namespace_loop_def)

section \<open>NormalizeStringAlloc returns the same block from every state\<close>

lemma alloc_loop_frame:
  "NormalizeStringAlloc_loop os f src as Len s = Some (r, s') \<Longrightarrow>
     PrivateNamespace s' = PrivateNamespace s \<and> BoundaryDescriptor s' = BoundaryDescriptor s
     \<and> AlgProvider s' = AlgProvider s \<and> Initializing s' = Initializing s
     \<and> objects s' = (case r of None \<Rightarrow> [] | Some (p, buf) \<Rightarrow> [HeapBlock p]) @ objects s"
proof (induction as arbitrary: Len s)
  case Nil
  then show ?case by simp
next
  case (Cons a as)
  obtain p e where a: "a = (p, e)" by (cases a)
  obtain r' dst e' where n: "ans_NormalizeString os f src Len = (r', dst, e')"
    by (cases "ans_NormalizeString os f src Len")
  show ?case
  proof (cases "p = NULL")
    case True
    with Cons.prems show ?thesis by (auto simp: a os_call_defs)
  next
    case False
    note p = this
    show ?thesis
    proof (cases "0 < r'")
      case True
      with Cons.prems p n show ?thesis by (auto simp: a os_call_defs)
    next
      case False
      note r = this
      show ?thesis
      proof (cases "e' = ERROR_INSUFFICIENT_BUFFER")
        case True
        with Cons.prems p n r
        have "NormalizeStringAlloc_loop os f src as (- r')
                (s\<lparr>LastErrorValue := ERROR_INSUFFICIENT_BUFFER,
                   calls := calls s @ [AllocArray Len, NormalizeString f src Len, Free p]\<rparr>) = Some (r, s')"
          by (simp add: a os_call_defs)
        from Cons.IH [OF this] show ?thesis by simp
      next
        case False
        with Cons.prems p n r show ?thesis by (auto simp: a os_call_defs)
      qed
    qed
  qed
qed

lemma alloc_loop_result:
  "NormalizeStringAlloc_loop os f src as Len s = Some (r, s') \<Longrightarrow>
     \<exists>t'. NormalizeStringAlloc_loop os f src as Len t = Some (r, t')"
proof (induction as arbitrary: Len s t)
  case Nil
  then show ?case by simp
next
  case (Cons a as)
  obtain p e where a: "a = (p, e)" by (cases a)
  obtain r' dst e' where n: "ans_NormalizeString os f src Len = (r', dst, e')"
    by (cases "ans_NormalizeString os f src Len")
  show ?case
  proof (cases "p = NULL")
    case True
    with Cons.prems show ?thesis by (auto simp: a os_call_defs)
  next
    case False
    note p = this
    show ?thesis
    proof (cases "0 < r'")
      case True
      with Cons.prems p n show ?thesis by (auto simp: a os_call_defs)
    next
      case False
      note r = this
      show ?thesis
      proof (cases "e' = ERROR_INSUFFICIENT_BUFFER")
        case True
        with Cons.prems p n r
        have "NormalizeStringAlloc_loop os f src as (- r')
                (s\<lparr>LastErrorValue := ERROR_INSUFFICIENT_BUFFER,
                   calls := calls s @ [AllocArray Len, NormalizeString f src Len, Free p]\<rparr>) = Some (r, s')"
          by (simp add: a os_call_defs)
        from Cons.IH [OF this]
        obtain t' where "NormalizeStringAlloc_loop os f src as (- r')
                (t\<lparr>LastErrorValue := ERROR_INSUFFICIENT_BUFFER,
                   calls := calls t @ [AllocArray Len, NormalizeString f src Len, Free p]\<rparr>) = Some (r, t')"
          by blast
        with True p n r show ?thesis by (simp add: a os_call_defs)
      next
        case False
        with Cons.prems p n r show ?thesis by (auto simp: a os_call_defs)
      qed
    qed
  qed
qed

lemma alloc_result:
  "NormalizeStringAlloc os f src s = Some (r, s') \<Longrightarrow>
     \<exists>t'. NormalizeStringAlloc os f src t = Some (r, t')"
  unfolding NormalizeStringAlloc_def
  by (cases "ans_NormalizeString os f src 0")
     (auto simp: os_call_defs Let_def split: if_splits dest: alloc_loop_result)

lemma alloc_frame:
  "NormalizeStringAlloc os f src s = Some (r, s') \<Longrightarrow>
     PrivateNamespace s' = PrivateNamespace s \<and> BoundaryDescriptor s' = BoundaryDescriptor s
     \<and> AlgProvider s' = AlgProvider s \<and> Initializing s' = Initializing s
     \<and> objects s' = (case r of None \<Rightarrow> [] | Some (p, buf) \<Rightarrow> [HeapBlock p]) @ objects s"
  unfolding NormalizeStringAlloc_def
  by (cases "ans_NormalizeString os f src 0")
     (auto simp: os_call_defs Let_def split: if_splits dest!: alloc_loop_frame)

section \<open>The pool mutex and its name\<close>

lemma pool_created:
  assumes "NamespaceTakePoolMutex_create os Pool s = Some (Inr (Created m p h name s'))"
  shows "\<exists>s1 buf s4.
       NamespaceRuntimeInit os s = Some (Inr (True, s1))
     \<and> NormalizeStringAlloc os NormalizationC Pool
           (emit (BCryptHashData h (take (sizeof mutex_label) (bytes_of (mutex_label @ [0]))))
              (acquire (HashObject h) (emit (BCryptCreateHash (AlgProvider s1)) s1)))
         = Some (Some (p, buf), s4)
     \<and> m = fst (ans_CreateMutexW os) \<and> m \<noteq> NULL \<and> h = snd (ans_BCryptCreateHash os)
     \<and> name = c_str (format_MutexName (replicate (countof MutexNamePrefix + 32 * 2) 0)
                  (ans_SHA256 os (take (sizeof mutex_label) (bytes_of (mutex_label @ [0]))
                                    @ take (wcslen buf + 2) (bytes_of buf))))
     \<and> s' = acquire (Mutex m) (emit (CreateMutexW name) (emit (BCryptFinishHash h)
                (emit (BCryptHashData h (take (wcslen buf + 2) (bytes_of buf))) s4)))"
  using assms
  by (cases "ans_CreateMutexW os"; cases "ans_BCryptCreateHash os")
     (auto simp: NamespaceTakePoolMutex_create_def os_call_defs cleanup_defs Let_def
           split: option.splits sum.splits prod.splits if_splits)

lemma length_MutexNamePrefix: "length MutexNamePrefix = 31"
  by (simp add: MutexNamePrefix_def L_def)

lemma countof_MutexNamePrefix: "countof MutexNamePrefix = 32"
  by (simp add: countof_def length_MutexNamePrefix)

lemma MutexNamePrefix_no_zero: "0 \<notin> set MutexNamePrefix"
  by (simp add: MutexNamePrefix_def L_def)

lemma hex_digits_no_zero: "0 \<notin> set (L ''0123456789abcdef'')"
  by (simp add: L_def)

lemma hex_digit_in: "n < 16 \<Longrightarrow> hex_digit n \<in> set (L ''0123456789abcdef'')"
  unfolding hex_digit_def by (rule nth_mem) (simp add: L_def)

lemma byte_nibbles: "unat (b :: BYTE) div 16 < 16 \<and> unat b mod 16 < 16"
proof -
  have "unat b < 2 ^ LENGTH(8)" by (rule unsigned_less)
  then have "unat b < 256" by simp
  then show ?thesis by simp
qed

lemma hex_string_digits: "set (hex_string Hash) \<subseteq> set (L ''0123456789abcdef'')"
  by (induction Hash) (simp_all add: hex_string_def hex_digit_in byte_nibbles)

lemma length_hex_string: "length (hex_string Hash) = 2 * length Hash"
  by (induction Hash) (simp_all add: hex_string_def)

lemma hex_string_no_zero: "0 \<notin> set (hex_string Hash)"
  using hex_string_digits [of Hash] hex_digits_no_zero by blast

lemma hex_string_snoc:
  "hex_string (xs @ [b]) = hex_string xs @ [hex_digit (unat b div 16), hex_digit (unat b mod 16)]"
  by (simp add: hex_string_def)

lemma write3:
  "length xs = n \<Longrightarrow>
   (xs @ a # b # c # zs)[n := x, n + 1 := y, n + 2 := z] = xs @ x # y # z # zs"
  by (simp add: list_update_append)

lemma format_loop:
  assumes "length P = 31" "length rest = 64" "length Hash = 32" "k \<le> 32"
  shows "fold (\<lambda>i MutexName. swprintf_s_02x MutexName (31 + i * 2) (Hash ! i)) [0..<k] (P @ 0 # rest)
         = P @ hex_string (take k Hash) @ 0 # drop (2 * k) rest"
  using assms(4)
proof (induction k)
  case 0
  show ?case by (simp add: hex_string_def)
next
  case (Suc k)
  then have k: "k < 32" and IH: "fold (\<lambda>i MutexName. swprintf_s_02x MutexName (31 + i * 2) (Hash ! i)) [0..<k] (P @ 0 # rest)
         = P @ hex_string (take k Hash) @ 0 # drop (2 * k) rest" by simp_all
  from k assms(2) have "2 * k + 1 < length rest" by simp
  then have "drop (2 * k) rest = rest ! (2 * k) # drop (Suc (2 * k)) rest"
    and "drop (Suc (2 * k)) rest = rest ! Suc (2 * k) # drop (Suc (Suc (2 * k))) rest"
    by (simp_all add: Cons_nth_drop_Suc)
  then obtain b c where d: "drop (2 * k) rest = b # c # drop (2 * Suc k) rest"
    by simp
  have len: "length (P @ hex_string (take k Hash)) = 31 + k * 2"
    using assms(1,3) k by (simp add: length_hex_string)
  have t: "take (Suc k) Hash = take k Hash @ [Hash ! k]"
    using k assms(3) by (simp add: take_Suc_conv_app_nth)
  have "fold (\<lambda>i MutexName. swprintf_s_02x MutexName (31 + i * 2) (Hash ! i)) [0..<Suc k] (P @ 0 # rest)
        = swprintf_s_02x ((P @ hex_string (take k Hash)) @ 0 # b # c # drop (2 * Suc k) rest)
            (31 + k * 2) (Hash ! k)"
    using IH d by simp
  also have "\<dots> = (P @ hex_string (take k Hash))
       @ hex_digit (unat (Hash ! k) div 16) # hex_digit (unat (Hash ! k) mod 16) # 0
       # drop (2 * Suc k) rest"
    unfolding swprintf_s_02x_def by (rule write3 [OF len])
  also have "\<dots> = P @ hex_string (take (Suc k) Hash) @ 0 # drop (2 * Suc k) rest"
    by (simp add: t hex_string_snoc)
  finally show ?case .
qed

lemma format_MutexName_eq:
  assumes "length stack = countof MutexNamePrefix + 32 * 2" "length Hash = 32"
  shows "format_MutexName stack Hash = MutexNamePrefix @ hex_string Hash @ [0]"
proof -
  have m: "memcpy stack (MutexNamePrefix @ [0]) 32 = MutexNamePrefix @ 0 # drop 32 stack"
    by (simp add: memcpy_def length_MutexNamePrefix)
  have "length (drop 32 stack) = 64"
    using assms(1) by (simp add: countof_MutexNamePrefix)
  from format_loop [OF length_MutexNamePrefix this assms(2), of 32]
  show ?thesis
    using assms by (simp add: format_MutexName_def m countof_MutexNamePrefix)
qed

lemma c_str_terminated: "0 \<notin> set xs \<Longrightarrow> c_str (xs @ 0 # ys) = xs"
proof -
  assume "0 \<notin> set xs"
  then have "\<forall>x\<in>set xs. x \<noteq> 0" by auto
  then show ?thesis by (simp add: c_str_def)
qed

lemma format_MutexName_c_str:
  assumes "length stack = countof MutexNamePrefix + 32 * 2" "length Hash = 32"
  shows "c_str (format_MutexName stack Hash) = MutexNamePrefix @ hex_string Hash"
proof -
  have "0 \<notin> set (MutexNamePrefix @ hex_string Hash)"
    using MutexNamePrefix_no_zero hex_string_no_zero by simp
  from c_str_terminated [OF this, of "[]"] show ?thesis
    by (simp add: format_MutexName_eq [OF assms])
qed

lemma length_bytes_of: "length (bytes_of ws) = 2 * length ws"
  by (induction ws) (simp_all add: bytes_of_def)

lemma label_bytes_whole:
  "take (sizeof mutex_label) (bytes_of (mutex_label @ [0])) = bytes_of (mutex_label @ [0])"
  by (simp add: sizeof_def countof_def length_bytes_of)

lemma installation_after_init:
  assumes "NamespaceRuntimeInit os s = Some (Inr (True, s1))"
  shows "NamespaceTakeDriverInstallationMutex os s =
     Some (Inr (
       if fst (ans_CreateMutexW os) = NULL then
         (NULL, emit (LOG ''Failed to create mutex'')
                  ((emit (CreateMutexW InstallationMutexName) s1)
                     \<lparr>LastErrorValue := snd (ans_CreateMutexW os)\<rparr>))
       else if ans_WaitForSingleObject os = WAIT_OBJECT_0 \<or> ans_WaitForSingleObject os = WAIT_ABANDONED then
         (fst (ans_CreateMutexW os),
          emit (WaitForSingleObject (fst (ans_CreateMutexW os)))
            (acquire (Mutex (fst (ans_CreateMutexW os))) (emit (CreateMutexW InstallationMutexName) s1)))
       else
         (NULL,
          os_SetLastError ERROR_GEN_FAILURE
            (snd (os_CloseHandle os (fst (ans_CreateMutexW os))
               (emit (LOG ''Failed to get mutex (status: 0x%x)'')
                  (emit (WaitForSingleObject (fst (ans_CreateMutexW os)))
                     (acquire (Mutex (fst (ans_CreateMutexW os)))
                        (emit (CreateMutexW InstallationMutexName) s1)))))))))"
  using assms
  by (cases "ans_CreateMutexW os")
     (simp add: NamespaceTakeDriverInstallationMutex_def os_CreateMutexW_def
        os_WaitForSingleObject_def LOG_LAST_ERROR_def os_LOG_def Let_def)

section \<open>NamespaceRuntimeInit after the races\<close>

lemma init_final_attempt:
  assumes cs: "Initializing s = CS n" and pn: "PrivateNamespace s = NULL"
    and reach: "reaches_namespace_loop os"
    and script: "ans_namespace os = races @ (create, opn) # rest"
    and races: "\<forall>a\<in>set races. transient_race a"
    and final: "\<not> transient_race (create, opn)"
  shows "\<exists>r s'. NamespaceRuntimeInit os s = Some (Inr (r, s'))
     \<and> Initializing s' = CS n
     \<and> AlgProvider s' = snd (ans_BCryptOpenAlgorithmProvider os)
     \<and> BoundaryDescriptor s' = fst (snd (ans_AddSIDToBoundaryDescriptor os))
     \<and> calls s' = calls s @
          [EnterCriticalSection, BCryptOpenAlgorithmProvider,
           CreateWellKnownSid (if IsLocalSystem os then WinLocalSystemSid else WinBuiltinAdministratorsSid),
           CreateBoundaryDescriptorW (L ''WireGuard''),
           AddSIDToBoundaryDescriptor (fst (ans_CreateBoundaryDescriptorW os))]
          @ concat (replicate (length races)
              [CreatePrivateNamespaceW (fst (snd (ans_AddSIDToBoundaryDescriptor os))) (L ''WireGuard''),
               OpenPrivateNamespaceW (fst (snd (ans_AddSIDToBoundaryDescriptor os))) (L ''WireGuard'')])
          @ (if fst create \<noteq> NULL then
               [CreatePrivateNamespaceW (fst (snd (ans_AddSIDToBoundaryDescriptor os))) (L ''WireGuard''),
                LeaveCriticalSection]
             else if snd create \<noteq> ERROR_ALREADY_EXISTS then
               [CreatePrivateNamespaceW (fst (snd (ans_AddSIDToBoundaryDescriptor os))) (L ''WireGuard''),
                LOG ''Failed to create private namespace'',
                DeleteBoundaryDescriptor (fst (snd (ans_AddSIDToBoundaryDescriptor os))),
                BCryptCloseAlgorithmProvider (snd (ans_BCryptOpenAlgorithmProvider os)),
                LeaveCriticalSection, SetLastError (snd create)]
             else if fst opn \<noteq> NULL then
               [CreatePrivateNamespaceW (fst (snd (ans_AddSIDToBoundaryDescriptor os))) (L ''WireGuard''),
                OpenPrivateNamespaceW (fst (snd (ans_AddSIDToBoundaryDescriptor os))) (L ''WireGuard''),
                LeaveCriticalSection]
             else
               [CreatePrivateNamespaceW (fst (snd (ans_AddSIDToBoundaryDescriptor os))) (L ''WireGuard''),
                OpenPrivateNamespaceW (fst (snd (ans_AddSIDToBoundaryDescriptor os))) (L ''WireGuard''),
                LOG ''Failed to open private namespace'',
                DeleteBoundaryDescriptor (fst (snd (ans_AddSIDToBoundaryDescriptor os))),
                BCryptCloseAlgorithmProvider (snd (ans_BCryptOpenAlgorithmProvider os)),
                LeaveCriticalSection, SetLastError (snd opn)])
     \<and> (if fst create \<noteq> NULL then
           r \<and> PrivateNamespace s' = fst create
           \<and> objects s' = Namespace (fst create)
                 # Boundary (fst (snd (ans_AddSIDToBoundaryDescriptor os)))
                 # Algorithm (snd (ans_BCryptOpenAlgorithmProvider os)) # objects s
         else if snd create \<noteq> ERROR_ALREADY_EXISTS then
           \<not> r \<and> PrivateNamespace s' = NULL \<and> LastErrorValue s' = snd create
           \<and> objects s' = objects s
         else if fst opn \<noteq> NULL then
           r \<and> PrivateNamespace s' = fst opn
           \<and> objects s' = Namespace (fst opn)
                 # Boundary (fst (snd (ans_AddSIDToBoundaryDescriptor os)))
                 # Algorithm (snd (ans_BCryptOpenAlgorithmProvider os)) # objects s
         else
           \<not> r \<and> PrivateNamespace s' = NULL \<and> LastErrorValue s' = snd opn
           \<and> snd opn \<noteq> ERROR_PATH_NOT_FOUND \<and> objects s' = objects s)"
proof (cases rule: attempt_cases [where create = create and opn = opn])
  case created
  show ?thesis
    unfolding init_reaches_loop [OF cs pn reach] script namespace_loop_races [OF races]
      loop_created [OF created]
    using created by (auto simp: after_races_fields os_call_defs)
next
  case create_failed
  show ?thesis
    unfolding init_reaches_loop [OF cs pn reach] script namespace_loop_races [OF races]
      loop_create_failed [OF create_failed]
    using create_failed by (auto simp: after_races_fields os_call_defs cleanup_defs)
next
  case opened
  show ?thesis
    unfolding init_reaches_loop [OF cs pn reach] script namespace_loop_races [OF races]
      loop_opened [OF opened]
    using opened by (auto simp: after_races_fields os_call_defs)
next
  case open_failed
  show ?thesis
    unfolding init_reaches_loop [OF cs pn reach] script namespace_loop_races [OF races]
      loop_open_failed [OF open_failed]
    using open_failed by (auto simp: after_races_fields os_call_defs cleanup_defs)
next
  case race
  with final show ?thesis by simp
qed

lemma init_only_races:
  assumes cs: "Initializing s = CS n" and pn: "PrivateNamespace s = NULL"
    and reach: "reaches_namespace_loop os"
    and script: "ans_namespace os = races"
    and races: "\<forall>a\<in>set races. transient_race a"
  shows "NamespaceRuntimeInit os s = None"
  unfolding init_reaches_loop [OF cs pn reach] script namespace_loop_only_races [OF races]
  by simp

lemma script_decompose:
  fixes script :: "((HANDLE \<times> DWORD) \<times> (HANDLE \<times> DWORD)) list"
  obtains (only_races) "\<forall>a\<in>set script. transient_race a"
  | (final) races create opn rest where "script = races @ (create, opn) # rest"
      "\<forall>a\<in>set races. transient_race a" "\<not> transient_race (create, opn)"
proof (cases "\<forall>a\<in>set script. transient_race a")
  case True
  then show ?thesis by (rule only_races)
next
  case False
  then have "\<exists>a\<in>set script. \<not> transient_race a" by simp
  from split_list_first_prop [OF this]
  obtain races a rest where "script = races @ a # rest" "\<not> transient_race a"
    "\<forall>b\<in>set races. \<not> \<not> transient_race b" by blast
  then show ?thesis using final [of races "fst a" "snd a" rest] by simp
qed

lemma init_effect:
  assumes "NamespaceRuntimeInit os s = Some (Inr (r, s'))"
  shows "(\<exists>n. Initializing s = CS n) \<and> Initializing s' = Initializing s
     \<and> (if PrivateNamespace s \<noteq> NULL then
           r \<and> s' = s\<lparr>calls := calls s @ [EnterCriticalSection, LeaveCriticalSection]\<rparr>
         else if r then
           PrivateNamespace s' \<noteq> NULL
           \<and> objects s' = Namespace (PrivateNamespace s') # Boundary (BoundaryDescriptor s')
                 # Algorithm (AlgProvider s') # objects s
         else PrivateNamespace s' = NULL \<and> objects s' = objects s)"
proof (cases "Initializing s")
  case CS_Uninitialized
  with assms init_invalid [of s os] show ?thesis by simp
next
  case CS_Deleted
  with assms init_invalid [of s os] show ?thesis by simp
next
  case (CS n)
  note cs = this
  show ?thesis
  proof (cases "PrivateNamespace s \<noteq> NULL")
    case True
    with assms cs init_fast_path [OF cs True, of os] show ?thesis by auto
  next
    case False
    then have pn: "PrivateNamespace s = NULL" by simp
    show ?thesis
    proof (cases "reaches_namespace_loop os")
      case True
      note reach = this
      show ?thesis
      proof (cases "ans_namespace os" rule: script_decompose)
        case only_races
        from init_only_races [OF cs pn reach refl only_races] assms show ?thesis by simp
      next
        case (final races create opn rest)
        from init_final_attempt [OF cs pn reach final] assms cs pn
        show ?thesis by (auto split: if_splits)
      qed
    next
      case False
      then consider
          "\<not> BCRYPT_SUCCESS (fst (ans_BCryptOpenAlgorithmProvider os))"
        | "BCRYPT_SUCCESS (fst (ans_BCryptOpenAlgorithmProvider os))"
          "\<not> fst (ans_CreateWellKnownSid os)"
        | "BCRYPT_SUCCESS (fst (ans_BCryptOpenAlgorithmProvider os))"
          "fst (ans_CreateWellKnownSid os)" "fst (ans_CreateBoundaryDescriptorW os) = NULL"
        | "BCRYPT_SUCCESS (fst (ans_BCryptOpenAlgorithmProvider os))"
          "fst (ans_CreateWellKnownSid os)" "fst (ans_CreateBoundaryDescriptorW os) \<noteq> NULL"
          "\<not> fst (ans_AddSIDToBoundaryDescriptor os)"
        unfolding reaches_namespace_loop_def by blast
      then show ?thesis
      proof cases
        case 1
        from init_open_failed [OF cs pn 1] assms cs pn show ?thesis by auto
      next
        case 2
        from init_sid_failed [OF cs pn 2] assms cs pn show ?thesis by auto
      next
        case 3
        from init_boundary_failed [OF cs pn 3] assms cs pn show ?thesis by auto
      next
        case 4
        from init_add_sid_failed [OF cs pn 4] assms cs pn show ?thesis by auto
      qed
    qed
  qed
qed

section \<open>Evaluating runs\<close>

lemmas run_defs =
  NamespaceRuntimeInit_def NamespaceTakePoolMutex_def NamespaceTakePoolMutex_create_def
  NamespaceTakePoolMutex_wait_def NamespaceTakeDriverInstallationMutex_def
  NamespaceReleaseMutex_def NamespaceInit_def NamespaceDone_def NormalizeStringAlloc_def
  initial_state_def loaded_state_def test_os_def test_NormalizeString_def test_digest_def
  os_call_defs cleanup_defs Let_def
  ERROR_PATH_NOT_FOUND_def ERROR_GEN_FAILURE_def ERROR_INSUFFICIENT_BUFFER_def
  ERROR_ALREADY_EXISTS_def WAIT_OBJECT_0_def WAIT_ABANDONED_def BCRYPT_SUCCESS_def

section \<open>What does not depend on the wait\<close>

lemma os_calls_ignore_wait:
  "os_BCryptOpenAlgorithmProvider (os\<lparr>ans_WaitForSingleObject := w\<rparr>) s
     = os_BCryptOpenAlgorithmProvider os s"
  "os_CreateWellKnownSid (os\<lparr>ans_WaitForSingleObject := w\<rparr>) ty s = os_CreateWellKnownSid os ty s"
  "os_CreateBoundaryDescriptorW (os\<lparr>ans_WaitForSingleObject := w\<rparr>) name s
     = os_CreateBoundaryDescriptorW os name s"
  "os_AddSIDToBoundaryDescriptor (os\<lparr>ans_WaitForSingleObject := w\<rparr>) s
     = os_AddSIDToBoundaryDescriptor os s"
  "os_BCryptCreateHash (os\<lparr>ans_WaitForSingleObject := w\<rparr>) alg s = os_BCryptCreateHash os alg s"
  "os_BCryptFinishHash (os\<lparr>ans_WaitForSingleObject := w\<rparr>) h input s
     = os_BCryptFinishHash os h input s"
  "os_NormalizeString (os\<lparr>ans_WaitForSingleObject := w\<rparr>) f src Len s
     = os_NormalizeString os f src Len s"
  "os_CreateMutexW (os\<lparr>ans_WaitForSingleObject := w\<rparr>) name s = os_CreateMutexW os name s"
  "os_CloseHandle (os\<lparr>ans_WaitForSingleObject := w\<rparr>) m s = os_CloseHandle os m s"
  by (simp_all add: os_call_defs)

lemma alloc_loop_ignores_wait:
  "NormalizeStringAlloc_loop (os\<lparr>ans_WaitForSingleObject := w\<rparr>) f src as Len s
     = NormalizeStringAlloc_loop os f src as Len s"
  by (induction as arbitrary: Len s)
     (simp_all add: os_calls_ignore_wait cong: if_cong prod.case_cong)

lemma init_ignores_wait:
  "NamespaceRuntimeInit (os\<lparr>ans_WaitForSingleObject := w\<rparr>) s = NamespaceRuntimeInit os s"
  by (simp add: NamespaceRuntimeInit_def os_calls_ignore_wait
        cong: if_cong prod.case_cong sum.case_cong option.case_cong)

lemma create_ignores_wait:
  "NamespaceTakePoolMutex_create (os\<lparr>ans_WaitForSingleObject := w\<rparr>) Pool s
     = NamespaceTakePoolMutex_create os Pool s"
  by (simp add: NamespaceTakePoolMutex_create_def init_ignores_wait NormalizeStringAlloc_def
        alloc_loop_ignores_wait os_calls_ignore_wait
        cong: if_cong prod.case_cong sum.case_cong option.case_cong)

lemma wait_signaled_or_abandoned:
  "NamespaceTakePoolMutex_wait (os\<lparr>ans_WaitForSingleObject := WAIT_ABANDONED\<rparr>) m p h s
     = NamespaceTakePoolMutex_wait (os\<lparr>ans_WaitForSingleObject := WAIT_OBJECT_0\<rparr>) m p h s"
  by (simp add: NamespaceTakePoolMutex_wait_def os_WaitForSingleObject_def)

lemma pool_signaled_or_abandoned:
  "NamespaceTakePoolMutex (os\<lparr>ans_WaitForSingleObject := WAIT_ABANDONED\<rparr>) Pool s
     = NamespaceTakePoolMutex (os\<lparr>ans_WaitForSingleObject := WAIT_OBJECT_0\<rparr>) Pool s"
  by (simp add: NamespaceTakePoolMutex_def create_ignores_wait wait_signaled_or_abandoned
        cong: option.case_cong sum.case_cong created.case_cong)

lemma installation_signaled_or_abandoned:
  "NamespaceTakeDriverInstallationMutex (os\<lparr>ans_WaitForSingleObject := WAIT_ABANDONED\<rparr>) s
     = NamespaceTakeDriverInstallationMutex (os\<lparr>ans_WaitForSingleObject := WAIT_OBJECT_0\<rparr>) s"
  by (simp add: NamespaceTakeDriverInstallationMutex_def init_ignores_wait os_calls_ignore_wait
        os_WaitForSingleObject_def
        cong: if_cong prod.case_cong sum.case_cong option.case_cong)

lemma pool_created_objects:
  assumes "NamespaceTakePoolMutex_create os Pool s = Some (Inr (Created m p h name s1))"
  shows "\<exists>s0. NamespaceRuntimeInit os s = Some (Inr (True, s0))
     \<and> objects s1 = Mutex m # HeapBlock p # HashObject h # objects s0
     \<and> PrivateNamespace s1 = PrivateNamespace s0 \<and> BoundaryDescriptor s1 = BoundaryDescriptor s0
     \<and> AlgProvider s1 = AlgProvider s0 \<and> Initializing s1 = Initializing s0"
proof -
  from pool_created [OF assms] obtain s0 buf s4 where
    init: "NamespaceRuntimeInit os s = Some (Inr (True, s0))"
    and norm: "NormalizeStringAlloc os NormalizationC Pool
           (emit (BCryptHashData h (take (sizeof mutex_label) (bytes_of (mutex_label @ [0]))))
              (acquire (HashObject h) (emit (BCryptCreateHash (AlgProvider s0)) s0)))
         = Some (Some (p, buf), s4)"
    and s1: "s1 = acquire (Mutex m) (emit (CreateMutexW name) (emit (BCryptFinishHash h)
                (emit (BCryptHashData h (take (wcslen buf + 2) (bytes_of buf))) s4)))"
    by blast
  from alloc_frame [OF norm] s1 init show ?thesis
    by (simp add: emit_def acquire_def)
qed

section \<open>The context objects\<close>

lemma pool_wait_context:
  "NamespaceTakePoolMutex_wait os m p h s = (r, s') \<Longrightarrow>
     PrivateNamespace s' = PrivateNamespace s \<and> BoundaryDescriptor s' = BoundaryDescriptor s
     \<and> AlgProvider s' = AlgProvider s \<and> Initializing s' = Initializing s
     \<and> context_objects s' = context_objects s"
  by (cases "ans_CloseHandle os")
     (auto simp: NamespaceTakePoolMutex_wait_def os_call_defs cleanup_defs Let_def
        context_objects_def filter_remove1 remove1_idem split: if_splits)

lemma pool_create_context:
  assumes "NamespaceTakePoolMutex_create os Pool s = Some (Inr c)"
  shows "\<exists>ok s0. NamespaceRuntimeInit os s = Some (Inr (ok, s0))
     \<and> (case c of Returned r s' \<Rightarrow>
           PrivateNamespace s' = PrivateNamespace s0 \<and> BoundaryDescriptor s' = BoundaryDescriptor s0
           \<and> AlgProvider s' = AlgProvider s0 \<and> Initializing s' = Initializing s0
           \<and> context_objects s' = context_objects s0
         | Created m p h name s' \<Rightarrow>
           PrivateNamespace s' = PrivateNamespace s0 \<and> BoundaryDescriptor s' = BoundaryDescriptor s0
           \<and> AlgProvider s' = AlgProvider s0 \<and> Initializing s' = Initializing s0
           \<and> context_objects s' = context_objects s0)"
  using assms
  by (cases "ans_CreateMutexW os"; cases "ans_BCryptCreateHash os")
     (auto simp: NamespaceTakePoolMutex_create_def os_call_defs cleanup_defs Let_def
           context_objects_def filter_remove1 remove1_idem
           split: option.splits sum.splits prod.splits if_splits dest!: alloc_frame)

lemma all_or_nothing_cong:
  "PrivateNamespace s' = PrivateNamespace s \<Longrightarrow> BoundaryDescriptor s' = BoundaryDescriptor s \<Longrightarrow>
   AlgProvider s' = AlgProvider s \<Longrightarrow> context_objects s' = context_objects s \<Longrightarrow>
   all_or_nothing s' = all_or_nothing s"
  by (simp add: all_or_nothing_def)

lemma init_keeps_all_or_nothing:
  assumes "all_or_nothing s" "NamespaceRuntimeInit os s = Some (Inr (r, s'))"
  shows "all_or_nothing s' \<and> r = (PrivateNamespace s' \<noteq> NULL)"
  using init_effect [OF assms(2)] assms(1)
  by (auto simp: all_or_nothing_def context_objects_def split: if_splits)

lemma init_twice:
  assumes "NamespaceRuntimeInit os s = Some (Inr (True, s1))"
  shows "NamespaceRuntimeInit os' s1 =
     Some (Inr (True, s1\<lparr>calls := calls s1 @ [EnterCriticalSection, LeaveCriticalSection]\<rparr>))"
proof -
  from init_effect [OF assms] obtain n where "Initializing s1 = CS n" "PrivateNamespace s1 \<noteq> NULL"
    by (auto split: if_splits)
  then show ?thesis by (rule init_fast_path)
qed

lemma pool_keeps_all_or_nothing:
  assumes "all_or_nothing s" "NamespaceTakePoolMutex os Pool s = Some (Inr (r, s'))"
  shows "all_or_nothing s'"
proof -
  from assms(2) obtain c where c: "NamespaceTakePoolMutex_create os Pool s = Some (Inr c)"
    by (auto simp: NamespaceTakePoolMutex_def split: option.splits sum.splits)
  from pool_create_context [OF c] obtain ok s0 where
    init: "NamespaceRuntimeInit os s = Some (Inr (ok, s0))"
    and ctx: "case c of Returned r s' \<Rightarrow>
           PrivateNamespace s' = PrivateNamespace s0 \<and> BoundaryDescriptor s' = BoundaryDescriptor s0
           \<and> AlgProvider s' = AlgProvider s0 \<and> Initializing s' = Initializing s0
           \<and> context_objects s' = context_objects s0
         | Created m p h name s' \<Rightarrow>
           PrivateNamespace s' = PrivateNamespace s0 \<and> BoundaryDescriptor s' = BoundaryDescriptor s0
           \<and> AlgProvider s' = AlgProvider s0 \<and> Initializing s' = Initializing s0
           \<and> context_objects s' = context_objects s0"
    by blast
  from init_keeps_all_or_nothing [OF assms(1) init] have s0: "all_or_nothing s0" by simp
  show ?thesis
  proof (cases c)
    case (Returned r1 s1)
    with assms(2) c have "s' = s1" by (simp add: NamespaceTakePoolMutex_def)
    with ctx Returned have "all_or_nothing s' = all_or_nothing s0"
      by (intro all_or_nothing_cong) simp_all
    with s0 show ?thesis by simp
  next
    case (Created m p h name s1)
    with assms(2) c have w: "NamespaceTakePoolMutex_wait os m p h s1 = (r, s')"
      by (simp add: NamespaceTakePoolMutex_def)
    from pool_wait_context [OF w] ctx Created have "all_or_nothing s' = all_or_nothing s0"
      by (intro all_or_nothing_cong) simp_all
    with s0 show ?thesis by simp
  qed
qed

lemma installation_keeps_all_or_nothing:
  assumes "all_or_nothing s" "NamespaceTakeDriverInstallationMutex os s = Some (Inr (r, s'))"
  shows "all_or_nothing s'"
proof -
  from assms(2) obtain ok s0 where init: "NamespaceRuntimeInit os s = Some (Inr (ok, s0))"
    by (auto simp: NamespaceTakeDriverInstallationMutex_def split: option.splits sum.splits)
  from init_keeps_all_or_nothing [OF assms(1) init] have s0: "all_or_nothing s0" by simp
  have "PrivateNamespace s' = PrivateNamespace s0 \<and> BoundaryDescriptor s' = BoundaryDescriptor s0
     \<and> AlgProvider s' = AlgProvider s0 \<and> context_objects s' = context_objects s0"
    using assms(2) init
    by (cases "ans_CreateMutexW os"; cases "ans_CloseHandle os")
       (auto simp: NamespaceTakeDriverInstallationMutex_def os_call_defs Let_def
          context_objects_def filter_remove1 remove1_idem split: if_splits)
  then have "all_or_nothing s' = all_or_nothing s0"
    by (intro all_or_nothing_cong) simp_all
  with s0 show ?thesis by simp
qed

lemma release_keeps_all_or_nothing:
  "all_or_nothing (NamespaceReleaseMutex os m s) = all_or_nothing s"
  by (cases "ans_ReleaseMutex os"; cases "ans_CloseHandle os")
     (simp add: NamespaceReleaseMutex_def os_call_defs Let_def all_or_nothing_def
        context_objects_def filter_remove1 remove1_idem)

lemma NamespaceInit_keeps_all_or_nothing:
  "all_or_nothing (NamespaceInit s) = all_or_nothing s"
  by (simp add: NamespaceInit_def os_call_defs all_or_nothing_def context_objects_def)

lemma done_effect:
  assumes "all_or_nothing s" "NamespaceDone s = Inr s'"
  shows "all_or_nothing s' \<and> PrivateNamespace s' = NULL \<and> context_objects s' = []
     \<and> Initializing s' = CS_Deleted"
  using assms
  by (auto simp: NamespaceDone_def os_call_defs Let_def all_or_nothing_def context_objects_def
        filter_remove1 split: CRITICAL_SECTION.splits if_splits)

section \<open>Terminated buffers\<close>

lemma terminated_buffer:
  assumes "0 \<in> set buf"
  shows "\<exists>rest. buf = c_str buf @ 0 # rest"
proof -
  from assms have "dropWhile (\<lambda>c. c \<noteq> 0) buf \<noteq> []" by (simp add: dropWhile_eq_Nil_conv)
  then obtain y rest where d: "dropWhile (\<lambda>c. c \<noteq> 0) buf = y # rest"
    by (cases "dropWhile (\<lambda>c. c \<noteq> 0) buf") auto
  from dropWhile_eq_Cons_conv [THEN iffD1, OF d] have "y = 0" by simp
  with d have "buf = takeWhile (\<lambda>c. c \<noteq> 0) buf @ 0 # rest"
    using takeWhile_dropWhile_id [of "\<lambda>c. c \<noteq> 0" buf] by simp
  then show ?thesis by (auto simp: c_str_def)
qed

lemma hashed_pool_bytes:
  assumes "0 \<in> set buf"
  shows "take (wcslen buf + 2) (bytes_of buf)
           = take (length (c_str buf) + 2) (bytes_of (c_str buf @ [0]))"
proof -
  from terminated_buffer [OF assms] obtain rest where b: "buf = c_str buf @ 0 # rest" by blast
  have "bytes_of (c_str buf @ 0 # rest) = bytes_of (c_str buf @ [0]) @ bytes_of rest"
    by (simp add: bytes_of_def)
  with b have "bytes_of buf = bytes_of (c_str buf @ [0]) @ bytes_of rest" by simp
  moreover have "length (c_str buf) + 2 \<le> length (bytes_of (c_str buf @ [0]))"
    by (simp add: length_bytes_of)
  moreover have "wcslen buf = length (c_str buf)" by (simp add: wcslen_def c_str_def)
  ultimately show ?thesis by simp
qed

section \<open>Runs in the test environment\<close>

lemmas env_defs = race_os_def denied_os_def failed_wait_os_def initialized_state_def
  torn_down_state_def

lemma run_test_init:
  "NamespaceRuntimeInit test_os loaded_state = Some (Inr (True, initialized_state))"
  by (simp add: run_defs env_defs)

lemma run_test_done: "NamespaceDone initialized_state = Inr torn_down_state"
  by (simp add: run_defs env_defs)

lemma run_test_create:
  "\<exists>name s'. NamespaceTakePoolMutex_create test_os (L ''Pool'') loaded_state
      = Some (Inr (Created 80 4096 64 name s'))"
  by (simp add: run_defs L_def)

lemma test_digest_length: "length (test_digest input) = 32"
  by (simp add: test_digest_def)

section \<open>The inputs of the hash\<close>

lemma hashed_inputs_append: "hashed_inputs (xs @ ys) = hashed_inputs xs @ hashed_inputs ys"
  by (induction xs rule: hashed_inputs.induct) simp_all

lemma alloc_loop_calls:
  "NormalizeStringAlloc_loop os f src as Len s = Some (r, s') \<Longrightarrow>
     \<exists>cs. calls s' = calls s @ cs \<and> hashed_inputs cs = []"
proof (induction as arbitrary: Len s)
  case Nil
  then show ?case by simp
next
  case (Cons a as)
  obtain p e where a: "a = (p, e)" by (cases a)
  obtain r' dst e' where n: "ans_NormalizeString os f src Len = (r', dst, e')"
    by (cases "ans_NormalizeString os f src Len")
  show ?case
  proof (cases "p = NULL")
    case True
    with Cons.prems show ?thesis by (auto simp: a os_call_defs)
  next
    case False
    note p = this
    show ?thesis
    proof (cases "0 < r'")
      case True
      with Cons.prems p n show ?thesis by (auto simp: a os_call_defs)
    next
      case False
      note r = this
      show ?thesis
      proof (cases "e' = ERROR_INSUFFICIENT_BUFFER")
        case True
        with Cons.prems p n r
        have "NormalizeStringAlloc_loop os f src as (- r')
                (s\<lparr>LastErrorValue := ERROR_INSUFFICIENT_BUFFER,
                   calls := calls s @ [AllocArray Len, NormalizeString f src Len, Free p]\<rparr>) = Some (r, s')"
          by (simp add: a os_call_defs)
        from Cons.IH [OF this] obtain cs where
          "calls s' = calls s @ [AllocArray Len, NormalizeString f src Len, Free p] @ cs"
          "hashed_inputs cs = []" by auto
        then show ?thesis by (auto simp: hashed_inputs_append)
      next
        case False
        with Cons.prems p n r show ?thesis by (auto simp: a os_call_defs)
      qed
    qed
  qed
qed

lemma alloc_calls:
  assumes "NormalizeStringAlloc os f src s = Some (r, s')"
  shows "\<exists>cs. calls s' = calls s @ cs \<and> hashed_inputs cs = []"
proof -
  obtain r0 dst e where n: "ans_NormalizeString os f src 0 = (r0, dst, e)"
    by (cases "ans_NormalizeString os f src 0")
  from assms n obtain s1 where "NormalizeStringAlloc_loop os f src (ans_AllocArray os) r0 s1 = Some (r, s')"
    and "calls s1 = calls s @ [NormalizeString f src 0]"
    by (auto simp: NormalizeStringAlloc_def os_call_defs Let_def split: if_splits)
  with alloc_loop_calls [of os f src "ans_AllocArray os" r0 s1 r s']
  show ?thesis by (auto simp: hashed_inputs_append)
qed

lemma run_test_normalize:
  "\<exists>t'. NormalizeStringAlloc test_os NormalizationC (L ''Pool'') loaded_state
      = Some (Some (4096, L ''Pool'' @ [0]), t')"
  by (simp add: run_defs L_def)

lemma loaded_state_fields:
  "Initializing loaded_state = CS 0" "PrivateNamespace loaded_state = NULL"
  "calls loaded_state = [InitializeCriticalSection]" "objects loaded_state = []"
  by (simp_all add: run_defs)

lemma test_os_reaches: "reaches_namespace_loop test_os"
  by (simp add: reaches_namespace_loop_def test_os_def BCRYPT_SUCCESS_def)

section \<open>Runs in which every step succeeds\<close>

lemma init_obtains_namespace:
  assumes cs: "Initializing s = CS n" and pn: "PrivateNamespace s = NULL"
    and reach: "reaches_namespace_loop os"
    and script: "ans_namespace os = races @ (create, opn) # rest"
    and races: "\<forall>a\<in>set races. transient_race a"
    and obtained: "fst create \<noteq> NULL \<or> snd create = ERROR_ALREADY_EXISTS \<and> fst opn \<noteq> NULL"
  shows "\<exists>s'. NamespaceRuntimeInit os s = Some (Inr (True, s'))
     \<and> PrivateNamespace s' = (if fst create \<noteq> NULL then fst create else fst opn)
     \<and> calls s' = calls s @
          [EnterCriticalSection, BCryptOpenAlgorithmProvider,
           CreateWellKnownSid (if IsLocalSystem os then WinLocalSystemSid else WinBuiltinAdministratorsSid),
           CreateBoundaryDescriptorW (L ''WireGuard''),
           AddSIDToBoundaryDescriptor (fst (ans_CreateBoundaryDescriptorW os))]
          @ concat (replicate (length races)
              [CreatePrivateNamespaceW (fst (snd (ans_AddSIDToBoundaryDescriptor os))) (L ''WireGuard''),
               OpenPrivateNamespaceW (fst (snd (ans_AddSIDToBoundaryDescriptor os))) (L ''WireGuard'')])
          @ (if fst create \<noteq> NULL then
               [CreatePrivateNamespaceW (fst (snd (ans_AddSIDToBoundaryDescriptor os))) (L ''WireGuard''),
                LeaveCriticalSection]
             else
               [CreatePrivateNamespaceW (fst (snd (ans_AddSIDToBoundaryDescriptor os))) (L ''WireGuard''),
                OpenPrivateNamespaceW (fst (snd (ans_AddSIDToBoundaryDescriptor os))) (L ''WireGuard''),
                LeaveCriticalSection])"
proof -
  have nr: "\<not> transient_race (create, opn)" using obtained by (auto simp add: transient_race_def)
  show ?thesis
  proof (cases "fst create \<noteq> NULL")
    case True
    with init_final_attempt [OF cs pn reach script races nr] show ?thesis
      by (elim exE conjE) simp
  next
    case False
    with obtained have "fst create = NULL" "snd create = ERROR_ALREADY_EXISTS" "fst opn \<noteq> NULL"
      by simp_all
    with init_final_attempt [OF cs pn reach script races nr] show ?thesis
      by (elim exE conjE) simp
  qed
qed

lemma pool_reaches_create:
  assumes init: "NamespaceRuntimeInit os s = Some (Inr (True, s0))"
    and hash: "hash_steps_succeed os"
    and mutex: "fst (ans_CreateMutexW os) \<noteq> NULL"
    and norm: "NormalizeStringAlloc os NormalizationC Pool t = Some (Some (p, buf), t')"
  shows "\<exists>name s1. NamespaceTakePoolMutex_create os Pool s
           = Some (Inr (Created (fst (ans_CreateMutexW os)) p (snd (ans_BCryptCreateHash os)) name s1))"
proof -
  obtain St h where ch: "ans_BCryptCreateHash os = (St, h)" by (cases "ans_BCryptCreateHash os")
  obtain m e where cm: "ans_CreateMutexW os = (m, e)" by (cases "ans_CreateMutexW os")
  define sA where "sA = acquire (HashObject h) (emit (BCryptCreateHash (AlgProvider s0)) s0)"
  have 1: "os_BCryptCreateHash os (AlgProvider s0) s0 = (St, h, sA)"
    using hash by (simp add: os_BCryptCreateHash_def ch sA_def hash_steps_succeed_def)
  from alloc_result [OF norm] obtain sC where
    3: "NormalizeStringAlloc os NormalizationC Pool
          (emit (BCryptHashData h (take (sizeof mutex_label) (bytes_of (mutex_label @ [0])))) sA)
        = Some (Some (p, buf), sC)" by blast
  have 4: "os_CreateMutexW os name u = (m, acquire (Mutex m) (emit (CreateMutexW name) u))" for name u
    using mutex by (simp add: os_CreateMutexW_def cm)
  show ?thesis
    using hash mutex
    by (simp add: NamespaceTakePoolMutex_create_def init 1 3 4 ch cm hash_steps_succeed_def
          os_BCryptHashData_def os_BCryptFinishHash_def Let_def)
qed

lemma pool_acquired:
  assumes init: "NamespaceRuntimeInit os s = Some (Inr (True, s0))"
    and hash: "hash_steps_succeed os"
    and mutex: "fst (ans_CreateMutexW os) \<noteq> NULL"
    and wait: "ans_WaitForSingleObject os = WAIT_OBJECT_0 \<or> ans_WaitForSingleObject os = WAIT_ABANDONED"
    and norm: "NormalizeStringAlloc os NormalizationC Pool t = Some (Some (p, buf), t')"
  shows "\<exists>s'. NamespaceTakePoolMutex os Pool s = Some (Inr (fst (ans_CreateMutexW os), s'))
           \<and> objects s' = Mutex (fst (ans_CreateMutexW os)) # objects s0"
proof -
  from pool_reaches_create [OF init hash mutex norm] obtain name s1 where
    c: "NamespaceTakePoolMutex_create os Pool s
           = Some (Inr (Created (fst (ans_CreateMutexW os)) p (snd (ans_BCryptCreateHash os)) name s1))"
    by blast
  from pool_created_objects [OF c] init have
    obs: "objects s1 = Mutex (fst (ans_CreateMutexW os)) # HeapBlock p
             # HashObject (snd (ans_BCryptCreateHash os)) # objects s0" by simp
  show ?thesis
    using wait obs
    by (auto simp add: NamespaceTakePoolMutex_def c NamespaceTakePoolMutex_wait_def
          os_call_defs Let_def)
qed

section \<open>The claims\<close>

text \<open>
  Claim C1: the digest behind the pool lock's name is taken over the label with its
  2-byte terminator, followed by the bytes of the normalized pool name. What the code
  hands to \<^verbatim>\<open>BCryptHashData\<close> for the name is \<^verbatim>\<open>wcslen(PoolNorm) + 2\<close> bytes: the label is hashed
  whole, but of a terminated normalized name of \<open>L\<close> characters only the first \<open>L + 2\<close>
  bytes of its \<open>2 * L + 2\<close> bytes (text and terminator) reach the hash. The count is in
  characters where a count in bytes is needed.
\<close>

theorem pool_name_bytes_hashed:
  assumes "NamespaceTakePoolMutex_create os Pool s = Some (Inr (Created m p h name s'))"
  shows "\<exists>s0 s3 buf s4.
       NamespaceRuntimeInit os s = Some (Inr (True, s0))
     \<and> NormalizeStringAlloc os NormalizationC Pool s3 = Some (Some (p, buf), s4)
     \<and> hashed_inputs (calls_since s0 s')
         = [bytes_of (mutex_label @ [0]), take (wcslen buf + 2) (bytes_of buf)]
     \<and> (0 \<in> set buf \<longrightarrow>
           take (wcslen buf + 2) (bytes_of buf)
             = take (length (c_str buf) + 2) (bytes_of (c_str buf @ [0]))
           \<and> length (take (wcslen buf + 2) (bytes_of buf)) = length (c_str buf) + 2)"
proof -
  from pool_created [OF assms] obtain s0 buf s4 where
    init: "NamespaceRuntimeInit os s = Some (Inr (True, s0))"
    and norm: "NormalizeStringAlloc os NormalizationC Pool
           (emit (BCryptHashData h (take (sizeof mutex_label) (bytes_of (mutex_label @ [0]))))
              (acquire (HashObject h) (emit (BCryptCreateHash (AlgProvider s0)) s0)))
         = Some (Some (p, buf), s4)"
    and s': "s' = acquire (Mutex m) (emit (CreateMutexW name) (emit (BCryptFinishHash h)
                (emit (BCryptHashData h (take (wcslen buf + 2) (bytes_of buf))) s4)))"
    by blast
  from alloc_calls [OF norm] obtain cs where
    cs: "calls s4 = calls s0 @ [BCryptCreateHash (AlgProvider s0),
            BCryptHashData h (bytes_of (mutex_label @ [0]))] @ cs"
    and none: "hashed_inputs cs = []"
    by (auto simp: emit_def acquire_def label_bytes_whole)
  have hashed: "hashed_inputs (calls_since s0 s')
         = [bytes_of (mutex_label @ [0]), take (wcslen buf + 2) (bytes_of buf)]"
    using none by (simp add: s' cs calls_since_def emit_def acquire_def hashed_inputs_append)
  have len: "take (wcslen buf + 2) (bytes_of buf)
             = take (length (c_str buf) + 2) (bytes_of (c_str buf @ [0]))
           \<and> length (take (wcslen buf + 2) (bytes_of buf)) = length (c_str buf) + 2"
    if "0 \<in> set buf"
    using hashed_pool_bytes [OF that] by (simp add: length_bytes_of)
  from init norm hashed len show ?thesis by blast
qed

text \<open>For the pool \<^verbatim>\<open>L"Pool"\<close> six bytes are hashed, the text \<^verbatim>\<open>Poo\<close>; the name and its terminator are ten.\<close>

theorem pool_name_bytes_hashed_witness:
  "\<exists>name s' s0.
     NamespaceTakePoolMutex_create test_os (L ''Pool'') loaded_state
       = Some (Inr (Created 80 4096 64 name s'))
   \<and> NamespaceRuntimeInit test_os loaded_state = Some (Inr (True, s0))
   \<and> hashed_inputs (calls_since s0 s') = [bytes_of (mutex_label @ [0]), [0x50, 0, 0x6F, 0, 0x6F, 0]]
   \<and> bytes_of (L ''Pool'' @ [0]) = [0x50, 0, 0x6F, 0, 0x6F, 0, 0x6C, 0, 0, 0]"
proof -
  from run_test_create obtain name s' where
    c: "NamespaceTakePoolMutex_create test_os (L ''Pool'') loaded_state
          = Some (Inr (Created 80 4096 64 name s'))" by blast
  from pool_name_bytes_hashed [OF c] obtain s0 s3 buf s4 where
    init: "NamespaceRuntimeInit test_os loaded_state = Some (Inr (True, s0))"
    and norm: "NormalizeStringAlloc test_os NormalizationC (L ''Pool'') s3 = Some (Some (4096, buf), s4)"
    and hashed: "hashed_inputs (calls_since s0 s')
         = [bytes_of (mutex_label @ [0]), take (wcslen buf + 2) (bytes_of buf)]"
    and whole: "0 \<in> set buf \<longrightarrow>
           take (wcslen buf + 2) (bytes_of buf)
             = take (length (c_str buf) + 2) (bytes_of (c_str buf @ [0]))
           \<and> length (take (wcslen buf + 2) (bytes_of buf)) = length (c_str buf) + 2"
    by blast
  from run_test_normalize alloc_result [OF norm, of loaded_state]
  have buf: "buf = L ''Pool'' @ [0]" by auto
  then have "0 \<in> set buf" and "c_str buf = L ''Pool''" by (simp_all add: c_str_def L_def)
  with whole have "take (wcslen buf + 2) (bytes_of buf)
      = take (length (L ''Pool'') + 2) (bytes_of (L ''Pool'' @ [0]))"
    by simp
  also have "\<dots> = [0x50, 0, 0x6F, 0, 0x6F, 0]" by (simp add: L_def bytes_of_def)
  finally have "take (wcslen buf + 2) (bytes_of buf) = [0x50, 0, 0x6F, 0, 0x6F, 0]" .
  moreover have "bytes_of (L ''Pool'' @ [0]) = [0x50, 0, 0x6F, 0, 0x6F, 0, 0x6C, 0, 0, 0]"
    by (simp add: L_def bytes_of_def)
  ultimately show ?thesis using c init hashed by simp
qed

text \<open>
  Claim C2: pool names with distinct normal forms get distinct lock identities. With the
  byte count of C1 the names \<^verbatim>\<open>Pool-1\<close> and \<^verbatim>\<open>Pool-2\<close>, whose normal forms differ, have the same
  eight bytes hashed and so get one and the same lock name, for every digest function \<open>H\<close>
  the provider could compute.
\<close>

theorem pool_collision_evaluated:
  "\<exists>pa bufa ta pb bufb tb m p h name sa sb.
     NormalizeStringAlloc (test_os\<lparr>ans_SHA256 := H\<rparr>) NormalizationC (L ''Pool-1'') loaded_state
       = Some (Some (pa, bufa), ta)
   \<and> NormalizeStringAlloc (test_os\<lparr>ans_SHA256 := H\<rparr>) NormalizationC (L ''Pool-2'') loaded_state
       = Some (Some (pb, bufb), tb)
   \<and> c_str bufa = L ''Pool-1'' \<and> c_str bufb = L ''Pool-2'' \<and> L ''Pool-1'' \<noteq> L ''Pool-2''
   \<and> NamespaceTakePoolMutex_create (test_os\<lparr>ans_SHA256 := H\<rparr>) (L ''Pool-1'') loaded_state
       = Some (Inr (Created m p h name sa))
   \<and> NamespaceTakePoolMutex_create (test_os\<lparr>ans_SHA256 := H\<rparr>) (L ''Pool-2'') loaded_state
       = Some (Inr (Created m p h name sb))
   \<and> last (calls sa) = CreateMutexW name \<and> last (calls sb) = CreateMutexW name"
  by (simp add: run_defs L_def c_str_def wcslen_def bytes_of_def)

text \<open>
  Claim C3: the mutex that \<^verbatim>\<open>NamespaceTakePoolMutex\<close> creates is named by the prefix
  \<^verbatim>\<open>WireGuard\WireGuard-Name-Mutex-\<close> followed by the 64 lowercase hexadecimal digits of the
  32-byte digest, and the mutex that \<^verbatim>\<open>NamespaceTakeDriverInstallationMutex\<close> creates always
  has the constant name \<^verbatim>\<open>WireGuard\WireGuard-Driver-Installation-Mutex\<close>. The digest is
  the provider's \<open>ans_SHA256\<close> of what was hashed, assumed to be 32 bytes long as
  \<^verbatim>\<open>BYTE Hash[32]\<close> is.
\<close>

theorem mutex_object_names:
  "(NamespaceTakePoolMutex_create os Pool s = Some (Inr (Created m p h name s'))
      \<and> (\<forall>input. length (ans_SHA256 os input) = 32) \<longrightarrow>
      last (calls s') = CreateMutexW name \<and> hd (objects s') = Mutex m \<and>
      (\<exists>buf Hash.
         Hash = ans_SHA256 os (bytes_of (mutex_label @ [0]) @ take (wcslen buf + 2) (bytes_of buf))
         \<and> length Hash = 32
         \<and> name = MutexNamePrefix @ hex_string Hash
         \<and> length (hex_string Hash) = 64
         \<and> set (hex_string Hash) \<subseteq> set (L ''0123456789abcdef'')))
   \<and> MutexNamePrefix = L ''WireGuard'' @ [0x5C] @ L ''WireGuard-Name-Mutex-''
   \<and> (NamespaceRuntimeInit os s = Some (Inr (True, s1)) \<longrightarrow>
        (\<exists>r s2. NamespaceTakeDriverInstallationMutex os s = Some (Inr (r, s2))
           \<and> hd (calls_since s1 s2) = CreateMutexW InstallationMutexName
           \<and> mutex_names (calls_since s1 s2) = [InstallationMutexName]))
   \<and> InstallationMutexName = L ''WireGuard'' @ [0x5C] @ L ''WireGuard-Driver-Installation-Mutex''"
proof (intro conjI impI)
  assume a: "NamespaceTakePoolMutex_create os Pool s = Some (Inr (Created m p h name s'))
      \<and> (\<forall>input. length (ans_SHA256 os input) = 32)"
  then have len: "\<And>input. length (ans_SHA256 os input) = 32" by simp
  from a pool_created [of os Pool s m p h name s']
  obtain buf s4 where
    name: "name = c_str (format_MutexName (replicate (countof MutexNamePrefix + 32 * 2) 0)
                  (ans_SHA256 os (take (sizeof mutex_label) (bytes_of (mutex_label @ [0]))
                                    @ take (wcslen buf + 2) (bytes_of buf))))"
    and s': "s' = acquire (Mutex m) (emit (CreateMutexW name) (emit (BCryptFinishHash h)
                (emit (BCryptHashData h (take (wcslen buf + 2) (bytes_of buf))) s4)))"
    by blast
  from s' show "last (calls s') = CreateMutexW name" by (simp add: emit_def acquire_def)
  from s' show "hd (objects s') = Mutex m" by (simp add: emit_def acquire_def)
  let ?Hash = "ans_SHA256 os (bytes_of (mutex_label @ [0]) @ take (wcslen buf + 2) (bytes_of buf))"
  have "name = MutexNamePrefix @ hex_string ?Hash"
    unfolding name label_bytes_whole
    by (rule format_MutexName_c_str) (simp_all add: len)
  moreover have "length (hex_string ?Hash) = 64" by (simp add: length_hex_string len)
  ultimately show "\<exists>buf Hash.
         Hash = ans_SHA256 os (bytes_of (mutex_label @ [0]) @ take (wcslen buf + 2) (bytes_of buf))
         \<and> length Hash = 32
         \<and> name = MutexNamePrefix @ hex_string Hash
         \<and> length (hex_string Hash) = 64
         \<and> set (hex_string Hash) \<subseteq> set (L ''0123456789abcdef'')"
    using len hex_string_digits by blast
next
  show "MutexNamePrefix = L ''WireGuard'' @ [0x5C] @ L ''WireGuard-Name-Mutex-''"
    by (simp add: MutexNamePrefix_def)
next
  assume "NamespaceRuntimeInit os s = Some (Inr (True, s1))"
  from installation_after_init [OF this]
  show "\<exists>r s2. NamespaceTakeDriverInstallationMutex os s = Some (Inr (r, s2))
           \<and> hd (calls_since s1 s2) = CreateMutexW InstallationMutexName
           \<and> mutex_names (calls_since s1 s2) = [InstallationMutexName]"
    by (cases "ans_CloseHandle os") (simp add: calls_since_def os_call_defs Let_def)
next
  show "InstallationMutexName = L ''WireGuard'' @ [0x5C] @ L ''WireGuard-Driver-Installation-Mutex''"
    by (simp add: InstallationMutexName_def)
qed

theorem mutex_object_names_witness:
  "\<exists>name s' s1 r s2.
     NamespaceTakePoolMutex_create test_os (L ''Pool'') loaded_state
       = Some (Inr (Created 80 4096 64 name s'))
   \<and> last (calls s') = CreateMutexW name
   \<and> take 31 name = L ''WireGuard'' @ [0x5C] @ L ''WireGuard-Name-Mutex-''
   \<and> length name = 31 + 64
   \<and> set (drop 31 name) \<subseteq> set (L ''0123456789abcdef'')
   \<and> NamespaceRuntimeInit test_os loaded_state = Some (Inr (True, s1))
   \<and> NamespaceTakeDriverInstallationMutex test_os loaded_state = Some (Inr (r, s2))
   \<and> mutex_names (calls_since s1 s2) = [L ''WireGuard'' @ [0x5C] @ L ''WireGuard-Driver-Installation-Mutex'']"
proof -
  from run_test_create obtain name s' where
    c: "NamespaceTakePoolMutex_create test_os (L ''Pool'') loaded_state
          = Some (Inr (Created 80 4096 64 name s'))" by blast
  have d: "\<forall>input. length (ans_SHA256 test_os input) = 32"
    by (simp add: test_os_def test_digest_length)
  note inst = mutex_object_names [of test_os "L ''Pool''" loaded_state 80 4096 64 name s' initialized_state]
  from inst c d obtain Hash where "last (calls s') = CreateMutexW name"
    and "name = MutexNamePrefix @ hex_string Hash" and "length (hex_string Hash) = 64"
    and "set (hex_string Hash) \<subseteq> set (L ''0123456789abcdef'')"
    and "MutexNamePrefix = L ''WireGuard'' @ [0x5C] @ L ''WireGuard-Name-Mutex-''"
    by blast
  moreover from inst run_test_init obtain r s2 where
    "NamespaceTakeDriverInstallationMutex test_os loaded_state = Some (Inr (r, s2))"
    and "mutex_names (calls_since initialized_state s2) = [InstallationMutexName]"
    and "InstallationMutexName = L ''WireGuard'' @ [0x5C] @ L ''WireGuard-Driver-Installation-Mutex''"
    by blast
  ultimately show ?thesis
    using c run_test_init length_MutexNamePrefix by auto
qed



text \<open>
  Claim C5: in both acquire functions a wait that ends signaled and a wait that ends
  abandoned cannot be told apart: the two runs return the same handle and leave the same
  state. Once the mutex is created, either outcome returns its handle; any other outcome
  returns \<^verbatim>\<open>NULL\<close> with the last error \<^verbatim>\<open>ERROR_GEN_FAILURE\<close>. The claim has the lock object
  released and closed in that case. The code closes it and does not release it: after the
  wait the calls are the log entry, \<^verbatim>\<open>CloseHandle\<close> on the mutex, the cleanup and \<^verbatim>\<open>SetLastError\<close>,
  and \<^verbatim>\<open>ReleaseMutex\<close> is not among them (the wait did not give ownership). When \<^verbatim>\<open>CloseHandle\<close>
  succeeds, the objects open afterwards are those open after initialization.
\<close>

theorem wait_outcomes:
  "NamespaceTakePoolMutex (os\<lparr>ans_WaitForSingleObject := WAIT_ABANDONED\<rparr>) Pool s
     = NamespaceTakePoolMutex (os\<lparr>ans_WaitForSingleObject := WAIT_OBJECT_0\<rparr>) Pool s
   \<and> NamespaceTakeDriverInstallationMutex (os\<lparr>ans_WaitForSingleObject := WAIT_ABANDONED\<rparr>) s
     = NamespaceTakeDriverInstallationMutex (os\<lparr>ans_WaitForSingleObject := WAIT_OBJECT_0\<rparr>) s
   \<and> (NamespaceTakePoolMutex_create os Pool s = Some (Inr (Created m p h name s1)) \<longrightarrow>
        m \<noteq> NULL \<and> Mutex m \<in> set (objects s1) \<and>
        (if ans_WaitForSingleObject os = WAIT_OBJECT_0 \<or> ans_WaitForSingleObject os = WAIT_ABANDONED
         then \<exists>s'. NamespaceTakePoolMutex os Pool s = Some (Inr (m, s'))
                \<and> calls_since s1 s' = [WaitForSingleObject m, Free p, BCryptDestroyHash h]
                \<and> LastErrorValue s' = LastErrorValue s1
                \<and> objects s' = remove1 (HashObject h) (remove1 (HeapBlock p) (objects s1))
         else \<exists>s'. NamespaceTakePoolMutex os Pool s = Some (Inr (NULL, s'))
                \<and> calls_since s1 s' =
                      [WaitForSingleObject m, LOG ''Failed to get mutex %s (status: 0x%x)'',
                       CloseHandle m, Free p, BCryptDestroyHash h, SetLastError ERROR_GEN_FAILURE]
                \<and> ReleaseMutex m \<notin> set (calls_since s1 s')
                \<and> LastErrorValue s' = ERROR_GEN_FAILURE
                \<and> (fst (ans_CloseHandle os) \<longrightarrow>
                      (\<exists>s0. NamespaceRuntimeInit os s = Some (Inr (True, s0))
                         \<and> objects s' = objects s0))))
   \<and> (NamespaceRuntimeInit os s = Some (Inr (True, s0)) \<and> fst (ans_CreateMutexW os) \<noteq> NULL \<longrightarrow>
        (if ans_WaitForSingleObject os = WAIT_OBJECT_0 \<or> ans_WaitForSingleObject os = WAIT_ABANDONED
         then \<exists>s'. NamespaceTakeDriverInstallationMutex os s = Some (Inr (fst (ans_CreateMutexW os), s'))
                \<and> calls_since s0 s' =
                      [CreateMutexW InstallationMutexName, WaitForSingleObject (fst (ans_CreateMutexW os))]
                \<and> LastErrorValue s' = LastErrorValue s0
                \<and> objects s' = Mutex (fst (ans_CreateMutexW os)) # objects s0
         else \<exists>s'. NamespaceTakeDriverInstallationMutex os s = Some (Inr (NULL, s'))
                \<and> calls_since s0 s' =
                      [CreateMutexW InstallationMutexName, WaitForSingleObject (fst (ans_CreateMutexW os)),
                       LOG ''Failed to get mutex (status: 0x%x)'',
                       CloseHandle (fst (ans_CreateMutexW os)), SetLastError ERROR_GEN_FAILURE]
                \<and> ReleaseMutex (fst (ans_CreateMutexW os)) \<notin> set (calls_since s0 s')
                \<and> LastErrorValue s' = ERROR_GEN_FAILURE
                \<and> (fst (ans_CloseHandle os) \<longrightarrow> objects s' = objects s0)))"
proof (intro conjI impI)
  show "NamespaceTakePoolMutex (os\<lparr>ans_WaitForSingleObject := WAIT_ABANDONED\<rparr>) Pool s
     = NamespaceTakePoolMutex (os\<lparr>ans_WaitForSingleObject := WAIT_OBJECT_0\<rparr>) Pool s"
    by (rule pool_signaled_or_abandoned)
  show "NamespaceTakeDriverInstallationMutex (os\<lparr>ans_WaitForSingleObject := WAIT_ABANDONED\<rparr>) s
     = NamespaceTakeDriverInstallationMutex (os\<lparr>ans_WaitForSingleObject := WAIT_OBJECT_0\<rparr>) s"
    by (rule installation_signaled_or_abandoned)
next
  assume c: "NamespaceTakePoolMutex_create os Pool s = Some (Inr (Created m p h name s1))"
  from pool_created [OF c] show "m \<noteq> NULL" by blast
  from pool_created_objects [OF c] obtain s0 where
    init: "NamespaceRuntimeInit os s = Some (Inr (True, s0))"
    and obs: "objects s1 = Mutex m # HeapBlock p # HashObject h # objects s0" by blast
  from obs show "Mutex m \<in> set (objects s1)" by simp
  show "if ans_WaitForSingleObject os = WAIT_OBJECT_0 \<or> ans_WaitForSingleObject os = WAIT_ABANDONED
         then \<exists>s'. NamespaceTakePoolMutex os Pool s = Some (Inr (m, s'))
                \<and> calls_since s1 s' = [WaitForSingleObject m, Free p, BCryptDestroyHash h]
                \<and> LastErrorValue s' = LastErrorValue s1
                \<and> objects s' = remove1 (HashObject h) (remove1 (HeapBlock p) (objects s1))
         else \<exists>s'. NamespaceTakePoolMutex os Pool s = Some (Inr (NULL, s'))
                \<and> calls_since s1 s' =
                      [WaitForSingleObject m, LOG ''Failed to get mutex %s (status: 0x%x)'',
                       CloseHandle m, Free p, BCryptDestroyHash h, SetLastError ERROR_GEN_FAILURE]
                \<and> ReleaseMutex m \<notin> set (calls_since s1 s')
                \<and> LastErrorValue s' = ERROR_GEN_FAILURE
                \<and> (fst (ans_CloseHandle os) \<longrightarrow>
                      (\<exists>s0. NamespaceRuntimeInit os s = Some (Inr (True, s0))
                         \<and> objects s' = objects s0))"
    using init obs
    by (cases "ans_CloseHandle os")
       (simp add: NamespaceTakePoolMutex_def c NamespaceTakePoolMutex_wait_def calls_since_def
          os_call_defs cleanup_defs Let_def)
next
  assume "NamespaceRuntimeInit os s = Some (Inr (True, s0)) \<and> fst (ans_CreateMutexW os) \<noteq> NULL"
  then have init: "NamespaceRuntimeInit os s = Some (Inr (True, s0))"
    and m: "fst (ans_CreateMutexW os) \<noteq> NULL" by simp_all
  show "if ans_WaitForSingleObject os = WAIT_OBJECT_0 \<or> ans_WaitForSingleObject os = WAIT_ABANDONED
         then \<exists>s'. NamespaceTakeDriverInstallationMutex os s = Some (Inr (fst (ans_CreateMutexW os), s'))
                \<and> calls_since s0 s' =
                      [CreateMutexW InstallationMutexName, WaitForSingleObject (fst (ans_CreateMutexW os))]
                \<and> LastErrorValue s' = LastErrorValue s0
                \<and> objects s' = Mutex (fst (ans_CreateMutexW os)) # objects s0
         else \<exists>s'. NamespaceTakeDriverInstallationMutex os s = Some (Inr (NULL, s'))
                \<and> calls_since s0 s' =
                      [CreateMutexW InstallationMutexName, WaitForSingleObject (fst (ans_CreateMutexW os)),
                       LOG ''Failed to get mutex (status: 0x%x)'',
                       CloseHandle (fst (ans_CreateMutexW os)), SetLastError ERROR_GEN_FAILURE]
                \<and> ReleaseMutex (fst (ans_CreateMutexW os)) \<notin> set (calls_since s0 s')
                \<and> LastErrorValue s' = ERROR_GEN_FAILURE
                \<and> (fst (ans_CloseHandle os) \<longrightarrow> objects s' = objects s0)"
    using m
    by (cases "ans_CloseHandle os")
       (simp add: installation_after_init [OF init] calls_since_def os_call_defs Let_def)
qed

theorem wait_outcomes_witness:
  "(\<exists>s'. NamespaceTakePoolMutex test_os (L ''Pool'') loaded_state = Some (Inr (80, s'))
        \<and> objects s' = [Mutex 80, Namespace 48, Boundary 33, Algorithm 16])
   \<and> (\<exists>s'. NamespaceTakePoolMutex failed_wait_os (L ''Pool'') loaded_state = Some (Inr (NULL, s'))
        \<and> LastErrorValue s' = ERROR_GEN_FAILURE
        \<and> objects s' = [Namespace 48, Boundary 33, Algorithm 16])
   \<and> (\<exists>s'. NamespaceTakeDriverInstallationMutex test_os loaded_state = Some (Inr (80, s'))
        \<and> objects s' = [Mutex 80, Namespace 48, Boundary 33, Algorithm 16])
   \<and> (\<exists>s'. NamespaceTakeDriverInstallationMutex failed_wait_os loaded_state = Some (Inr (NULL, s'))
        \<and> LastErrorValue s' = ERROR_GEN_FAILURE
        \<and> objects s' = [Namespace 48, Boundary 33, Algorithm 16])"
proof -
  have c1: "\<exists>name s1. NamespaceTakePoolMutex_create test_os (L ''Pool'') loaded_state
      = Some (Inr (Created 80 4096 64 name s1))
      \<and> objects s1 = [Mutex 80, HeapBlock 4096, HashObject 64, Namespace 48, Boundary 33, Algorithm 16]"
    by (simp add: run_defs L_def)
  have c2: "\<exists>name s1. NamespaceTakePoolMutex_create failed_wait_os (L ''Pool'') loaded_state
      = Some (Inr (Created 80 4096 64 name s1))"
    using run_test_create by (simp add: failed_wait_os_def create_ignores_wait)
  have i2: "NamespaceRuntimeInit failed_wait_os loaded_state = Some (Inr (True, initialized_state))"
    by (simp add: failed_wait_os_def init_ignores_wait run_test_init)
  from c1 obtain name s1 where
    1: "NamespaceTakePoolMutex_create test_os (L ''Pool'') loaded_state
      = Some (Inr (Created 80 4096 64 name s1))"
    and o1: "objects s1 = [Mutex 80, HeapBlock 4096, HashObject 64, Namespace 48, Boundary 33, Algorithm 16]"
    by blast
  from c2 obtain name2 s2 where
    2: "NamespaceTakePoolMutex_create failed_wait_os (L ''Pool'') loaded_state
      = Some (Inr (Created 80 4096 64 name2 s2))" by blast
  have pool_ok: "\<exists>s'. NamespaceTakePoolMutex test_os (L ''Pool'') loaded_state = Some (Inr (80, s'))
        \<and> objects s' = [Mutex 80, Namespace 48, Boundary 33, Algorithm 16]"
    using wait_outcomes [of test_os "L ''Pool''" loaded_state 80 4096 64 name s1 initialized_state] 1 o1
    by (auto simp: test_os_def)
  have pool_failed: "\<exists>s'. NamespaceTakePoolMutex failed_wait_os (L ''Pool'') loaded_state
          = Some (Inr (NULL, s'))
        \<and> LastErrorValue s' = ERROR_GEN_FAILURE
        \<and> objects s' = [Namespace 48, Boundary 33, Algorithm 16]"
    using wait_outcomes [of failed_wait_os "L ''Pool''" loaded_state 80 4096 64 name2 s2
            initialized_state] 2 i2
    by (auto simp: failed_wait_os_def test_os_def WAIT_OBJECT_0_def WAIT_ABANDONED_def
          initialized_state_def)
  have inst_ok: "\<exists>s'. NamespaceTakeDriverInstallationMutex test_os loaded_state = Some (Inr (80, s'))
        \<and> objects s' = [Mutex 80, Namespace 48, Boundary 33, Algorithm 16]"
    using wait_outcomes [of test_os "L ''Pool''" loaded_state 80 4096 64 name s1 initialized_state]
      run_test_init
    by (auto simp: test_os_def initialized_state_def)
  have inst_failed: "\<exists>s'. NamespaceTakeDriverInstallationMutex failed_wait_os loaded_state
          = Some (Inr (NULL, s'))
        \<and> LastErrorValue s' = ERROR_GEN_FAILURE
        \<and> objects s' = [Namespace 48, Boundary 33, Algorithm 16]"
    using wait_outcomes [of failed_wait_os "L ''Pool''" loaded_state 80 4096 64 name2 s2
            initialized_state] i2
    by (auto simp: failed_wait_os_def test_os_def WAIT_OBJECT_0_def WAIT_ABANDONED_def
          initialized_state_def)
  from pool_ok pool_failed inst_ok inst_failed show ?thesis by blast
qed

text \<open>
  A wait that fails (\<^verbatim>\<open>WAIT_FAILED\<close>) in the test environment: in the whole run of either
  acquire function no handle is given to \<^verbatim>\<open>ReleaseMutex\<close>.
\<close>

theorem wait_outcomes_counterexample:
  "(\<exists>name s1 s'.
      NamespaceTakePoolMutex_create failed_wait_os (L ''Pool'') loaded_state
        = Some (Inr (Created 80 4096 64 name s1))
    \<and> NamespaceTakePoolMutex failed_wait_os (L ''Pool'') loaded_state = Some (Inr (NULL, s'))
    \<and> calls_since s1 s' =
          [WaitForSingleObject 80, LOG ''Failed to get mutex %s (status: 0x%x)'',
           CloseHandle 80, Free 4096, BCryptDestroyHash 64, SetLastError ERROR_GEN_FAILURE]
    \<and> (\<forall>h. ReleaseMutex h \<notin> set (calls s')))
   \<and> (\<exists>s'.
      NamespaceTakeDriverInstallationMutex failed_wait_os loaded_state = Some (Inr (NULL, s'))
    \<and> calls_since initialized_state s' =
          [CreateMutexW InstallationMutexName, WaitForSingleObject 80,
           LOG ''Failed to get mutex (status: 0x%x)'', CloseHandle 80, SetLastError ERROR_GEN_FAILURE]
    \<and> (\<forall>h. ReleaseMutex h \<notin> set (calls s')))"
proof (rule conjI)
  show "\<exists>name s1 s'.
      NamespaceTakePoolMutex_create failed_wait_os (L ''Pool'') loaded_state
        = Some (Inr (Created 80 4096 64 name s1))
    \<and> NamespaceTakePoolMutex failed_wait_os (L ''Pool'') loaded_state = Some (Inr (NULL, s'))
    \<and> calls_since s1 s' =
          [WaitForSingleObject 80, LOG ''Failed to get mutex %s (status: 0x%x)'',
           CloseHandle 80, Free 4096, BCryptDestroyHash 64, SetLastError ERROR_GEN_FAILURE]
    \<and> (\<forall>h. ReleaseMutex h \<notin> set (calls s'))"
    by (simp add: run_defs env_defs L_def calls_since_def)
  show "\<exists>s'.
      NamespaceTakeDriverInstallationMutex failed_wait_os loaded_state = Some (Inr (NULL, s'))
    \<and> calls_since initialized_state s' =
          [CreateMutexW InstallationMutexName, WaitForSingleObject 80,
           LOG ''Failed to get mutex (status: 0x%x)'', CloseHandle 80, SetLastError ERROR_GEN_FAILURE]
    \<and> (\<forall>h. ReleaseMutex h \<notin> set (calls s'))"
    by (simp add: run_defs env_defs calls_since_def)
qed

text \<open>
  Claim C6: when \<^verbatim>\<open>CreatePrivateNamespaceW\<close> fails with \<^verbatim>\<open>ERROR_ALREADY_EXISTS\<close> the namespace
  is opened instead; when that fails with \<^verbatim>\<open>ERROR_PATH_NOT_FOUND\<close> the loop takes another
  turn. After any number of such turns the next turn decides: created, opened, or a
  failure whose error is that of the creation (other than \<^verbatim>\<open>ERROR_ALREADY_EXISTS\<close>) or
  that of the opening, which is then not \<^verbatim>\<open>ERROR_PATH_NOT_FOUND\<close>. While every turn meets the
  race the function does not return.
\<close>

theorem namespace_race_retried:
  assumes "Initializing s = CS n" and "PrivateNamespace s = NULL"
    and "reaches_namespace_loop os"
    and "\<forall>a\<in>set races. transient_race a"
  shows "(ans_namespace os = races \<longrightarrow> NamespaceRuntimeInit os s = None)
     \<and> (ans_namespace os = races @ (create, opn) # rest \<and> \<not> transient_race (create, opn) \<longrightarrow>
          (\<exists>r s'. NamespaceRuntimeInit os s = Some (Inr (r, s'))
             \<and> calls_since s s' =
                  [EnterCriticalSection, BCryptOpenAlgorithmProvider,
                   CreateWellKnownSid
                     (if IsLocalSystem os then WinLocalSystemSid else WinBuiltinAdministratorsSid),
                   CreateBoundaryDescriptorW (L ''WireGuard''),
                   AddSIDToBoundaryDescriptor (fst (ans_CreateBoundaryDescriptorW os))]
                  @ concat (replicate (length races)
                      [CreatePrivateNamespaceW (fst (snd (ans_AddSIDToBoundaryDescriptor os))) (L ''WireGuard''),
                       OpenPrivateNamespaceW (fst (snd (ans_AddSIDToBoundaryDescriptor os))) (L ''WireGuard'')])
                  @ (if fst create \<noteq> NULL then
                       [CreatePrivateNamespaceW (fst (snd (ans_AddSIDToBoundaryDescriptor os))) (L ''WireGuard''),
                        LeaveCriticalSection]
                     else if snd create \<noteq> ERROR_ALREADY_EXISTS then
                       [CreatePrivateNamespaceW (fst (snd (ans_AddSIDToBoundaryDescriptor os))) (L ''WireGuard''),
                        LOG ''Failed to create private namespace'',
                        DeleteBoundaryDescriptor (fst (snd (ans_AddSIDToBoundaryDescriptor os))),
                        BCryptCloseAlgorithmProvider (snd (ans_BCryptOpenAlgorithmProvider os)),
                        LeaveCriticalSection, SetLastError (snd create)]
                     else if fst opn \<noteq> NULL then
                       [CreatePrivateNamespaceW (fst (snd (ans_AddSIDToBoundaryDescriptor os))) (L ''WireGuard''),
                        OpenPrivateNamespaceW (fst (snd (ans_AddSIDToBoundaryDescriptor os))) (L ''WireGuard''),
                        LeaveCriticalSection]
                     else
                       [CreatePrivateNamespaceW (fst (snd (ans_AddSIDToBoundaryDescriptor os))) (L ''WireGuard''),
                        OpenPrivateNamespaceW (fst (snd (ans_AddSIDToBoundaryDescriptor os))) (L ''WireGuard''),
                        LOG ''Failed to open private namespace'',
                        DeleteBoundaryDescriptor (fst (snd (ans_AddSIDToBoundaryDescriptor os))),
                        BCryptCloseAlgorithmProvider (snd (ans_BCryptOpenAlgorithmProvider os)),
                        LeaveCriticalSection, SetLastError (snd opn)])
             \<and> (if fst create \<noteq> NULL then r \<and> PrivateNamespace s' = fst create
                 else if snd create \<noteq> ERROR_ALREADY_EXISTS then
                   \<not> r \<and> PrivateNamespace s' = NULL \<and> LastErrorValue s' = snd create
                 else if fst opn \<noteq> NULL then r \<and> PrivateNamespace s' = fst opn
                 else \<not> r \<and> PrivateNamespace s' = NULL \<and> LastErrorValue s' = snd opn
                      \<and> snd opn \<noteq> ERROR_PATH_NOT_FOUND)))"
proof (intro conjI impI)
  assume "ans_namespace os = races"
  from init_only_races [OF assms(1-3) this assms(4)]
  show "NamespaceRuntimeInit os s = None" .
next
  assume "ans_namespace os = races @ (create, opn) # rest \<and> \<not> transient_race (create, opn)"
  then have script: "ans_namespace os = races @ (create, opn) # rest"
    and final: "\<not> transient_race (create, opn)" by simp_all
  from init_final_attempt [OF assms(1-3) script assms(4) final]
  obtain r s' where run: "NamespaceRuntimeInit os s = Some (Inr (r, s'))"
    and rest: "calls s' = calls s @
          [EnterCriticalSection, BCryptOpenAlgorithmProvider,
           CreateWellKnownSid (if IsLocalSystem os then WinLocalSystemSid else WinBuiltinAdministratorsSid),
           CreateBoundaryDescriptorW (L ''WireGuard''),
           AddSIDToBoundaryDescriptor (fst (ans_CreateBoundaryDescriptorW os))]
          @ concat (replicate (length races)
              [CreatePrivateNamespaceW (fst (snd (ans_AddSIDToBoundaryDescriptor os))) (L ''WireGuard''),
               OpenPrivateNamespaceW (fst (snd (ans_AddSIDToBoundaryDescriptor os))) (L ''WireGuard'')])
          @ (if fst create \<noteq> NULL then
               [CreatePrivateNamespaceW (fst (snd (ans_AddSIDToBoundaryDescriptor os))) (L ''WireGuard''),
                LeaveCriticalSection]
             else if snd create \<noteq> ERROR_ALREADY_EXISTS then
               [CreatePrivateNamespaceW (fst (snd (ans_AddSIDToBoundaryDescriptor os))) (L ''WireGuard''),
                LOG ''Failed to create private namespace'',
                DeleteBoundaryDescriptor (fst (snd (ans_AddSIDToBoundaryDescriptor os))),
                BCryptCloseAlgorithmProvider (snd (ans_BCryptOpenAlgorithmProvider os)),
                LeaveCriticalSection, SetLastError (snd create)]
             else if fst opn \<noteq> NULL then
               [CreatePrivateNamespaceW (fst (snd (ans_AddSIDToBoundaryDescriptor os))) (L ''WireGuard''),
                OpenPrivateNamespaceW (fst (snd (ans_AddSIDToBoundaryDescriptor os))) (L ''WireGuard''),
                LeaveCriticalSection]
             else
               [CreatePrivateNamespaceW (fst (snd (ans_AddSIDToBoundaryDescriptor os))) (L ''WireGuard''),
                OpenPrivateNamespaceW (fst (snd (ans_AddSIDToBoundaryDescriptor os))) (L ''WireGuard''),
                LOG ''Failed to open private namespace'',
                DeleteBoundaryDescriptor (fst (snd (ans_AddSIDToBoundaryDescriptor os))),
                BCryptCloseAlgorithmProvider (snd (ans_BCryptOpenAlgorithmProvider os)),
                LeaveCriticalSection, SetLastError (snd opn)])"
    and out: "if fst create \<noteq> NULL then
           r \<and> PrivateNamespace s' = fst create
           \<and> objects s' = Namespace (fst create)
                 # Boundary (fst (snd (ans_AddSIDToBoundaryDescriptor os)))
                 # Algorithm (snd (ans_BCryptOpenAlgorithmProvider os)) # objects s
         else if snd create \<noteq> ERROR_ALREADY_EXISTS then
           \<not> r \<and> PrivateNamespace s' = NULL \<and> LastErrorValue s' = snd create
           \<and> objects s' = objects s
         else if fst opn \<noteq> NULL then
           r \<and> PrivateNamespace s' = fst opn
           \<and> objects s' = Namespace (fst opn)
                 # Boundary (fst (snd (ans_AddSIDToBoundaryDescriptor os)))
                 # Algorithm (snd (ans_BCryptOpenAlgorithmProvider os)) # objects s
         else
           \<not> r \<and> PrivateNamespace s' = NULL \<and> LastErrorValue s' = snd opn
           \<and> snd opn \<noteq> ERROR_PATH_NOT_FOUND \<and> objects s' = objects s"
    by blast
  show "\<exists>r s'. NamespaceRuntimeInit os s = Some (Inr (r, s'))
             \<and> calls_since s s' =
                  [EnterCriticalSection, BCryptOpenAlgorithmProvider,
                   CreateWellKnownSid
                     (if IsLocalSystem os then WinLocalSystemSid else WinBuiltinAdministratorsSid),
                   CreateBoundaryDescriptorW (L ''WireGuard''),
                   AddSIDToBoundaryDescriptor (fst (ans_CreateBoundaryDescriptorW os))]
                  @ concat (replicate (length races)
                      [CreatePrivateNamespaceW (fst (snd (ans_AddSIDToBoundaryDescriptor os))) (L ''WireGuard''),
                       OpenPrivateNamespaceW (fst (snd (ans_AddSIDToBoundaryDescriptor os))) (L ''WireGuard'')])
                  @ (if fst create \<noteq> NULL then
                       [CreatePrivateNamespaceW (fst (snd (ans_AddSIDToBoundaryDescriptor os))) (L ''WireGuard''),
                        LeaveCriticalSection]
                     else if snd create \<noteq> ERROR_ALREADY_EXISTS then
                       [CreatePrivateNamespaceW (fst (snd (ans_AddSIDToBoundaryDescriptor os))) (L ''WireGuard''),
                        LOG ''Failed to create private namespace'',
                        DeleteBoundaryDescriptor (fst (snd (ans_AddSIDToBoundaryDescriptor os))),
                        BCryptCloseAlgorithmProvider (snd (ans_BCryptOpenAlgorithmProvider os)),
                        LeaveCriticalSection, SetLastError (snd create)]
                     else if fst opn \<noteq> NULL then
                       [CreatePrivateNamespaceW (fst (snd (ans_AddSIDToBoundaryDescriptor os))) (L ''WireGuard''),
                        OpenPrivateNamespaceW (fst (snd (ans_AddSIDToBoundaryDescriptor os))) (L ''WireGuard''),
                        LeaveCriticalSection]
                     else
                       [CreatePrivateNamespaceW (fst (snd (ans_AddSIDToBoundaryDescriptor os))) (L ''WireGuard''),
                        OpenPrivateNamespaceW (fst (snd (ans_AddSIDToBoundaryDescriptor os))) (L ''WireGuard''),
                        LOG ''Failed to open private namespace'',
                        DeleteBoundaryDescriptor (fst (snd (ans_AddSIDToBoundaryDescriptor os))),
                        BCryptCloseAlgorithmProvider (snd (ans_BCryptOpenAlgorithmProvider os)),
                        LeaveCriticalSection, SetLastError (snd opn)])
             \<and> (if fst create \<noteq> NULL then r \<and> PrivateNamespace s' = fst create
                 else if snd create \<noteq> ERROR_ALREADY_EXISTS then
                   \<not> r \<and> PrivateNamespace s' = NULL \<and> LastErrorValue s' = snd create
                 else if fst opn \<noteq> NULL then r \<and> PrivateNamespace s' = fst opn
                 else \<not> r \<and> PrivateNamespace s' = NULL \<and> LastErrorValue s' = snd opn
                      \<and> snd opn \<noteq> ERROR_PATH_NOT_FOUND)"
    apply (rule exI [of _ r], rule exI [of _ s'])
    using run rest out by (simp add: calls_since_def split: if_splits)
qed

theorem namespace_race_retried_witness:
  "(\<exists>s'. NamespaceRuntimeInit race_os loaded_state = Some (Inr (True, s'))
       \<and> PrivateNamespace s' = 49
       \<and> calls_since loaded_state s' =
           [EnterCriticalSection, BCryptOpenAlgorithmProvider, CreateWellKnownSid WinLocalSystemSid,
            CreateBoundaryDescriptorW (L ''WireGuard''), AddSIDToBoundaryDescriptor 32,
            CreatePrivateNamespaceW 33 (L ''WireGuard''), OpenPrivateNamespaceW 33 (L ''WireGuard''),
            CreatePrivateNamespaceW 33 (L ''WireGuard''), OpenPrivateNamespaceW 33 (L ''WireGuard''),
            CreatePrivateNamespaceW 33 (L ''WireGuard''), OpenPrivateNamespaceW 33 (L ''WireGuard''),
            LeaveCriticalSection])
   \<and> NamespaceRuntimeInit (race_os\<lparr>ans_namespace := take 2 (ans_namespace race_os)\<rparr>) loaded_state
       = None"
proof -
  let ?race = "((NULL, ERROR_ALREADY_EXISTS), (NULL, ERROR_PATH_NOT_FOUND))"
  have races: "\<forall>a\<in>set [?race, ?race]. transient_race a" by (simp add: transient_race_def)
  have reach: "reaches_namespace_loop race_os"
    and reach': "reaches_namespace_loop (race_os\<lparr>ans_namespace := take 2 (ans_namespace race_os)\<rparr>)"
    using test_os_reaches by (simp_all add: reaches_namespace_loop_def race_os_def)
  have final: "\<not> transient_race ((NULL, ERROR_ALREADY_EXISTS), (49, 0))"
    by (simp add: transient_race_def)
  have script: "ans_namespace race_os = [?race, ?race] @ ((NULL, ERROR_ALREADY_EXISTS), (49, 0)) # []"
    by (simp add: race_os_def)
  have script': "ans_namespace (race_os\<lparr>ans_namespace := take 2 (ans_namespace race_os)\<rparr>)
       = [?race, ?race]"
    by (simp add: race_os_def)
  from namespace_race_retried [OF loaded_state_fields(1,2) reach races,
      of "(NULL, ERROR_ALREADY_EXISTS)" "(49, 0)" "[]"] script final
  have 1: "\<exists>s'. NamespaceRuntimeInit race_os loaded_state = Some (Inr (True, s'))
       \<and> PrivateNamespace s' = 49
       \<and> calls_since loaded_state s' =
           [EnterCriticalSection, BCryptOpenAlgorithmProvider, CreateWellKnownSid WinLocalSystemSid,
            CreateBoundaryDescriptorW (L ''WireGuard''), AddSIDToBoundaryDescriptor 32,
            CreatePrivateNamespaceW 33 (L ''WireGuard''), OpenPrivateNamespaceW 33 (L ''WireGuard''),
            CreatePrivateNamespaceW 33 (L ''WireGuard''), OpenPrivateNamespaceW 33 (L ''WireGuard''),
            CreatePrivateNamespaceW 33 (L ''WireGuard''), OpenPrivateNamespaceW 33 (L ''WireGuard''),
            LeaveCriticalSection]"
    by (auto simp: race_os_def test_os_def)
  from namespace_race_retried [OF loaded_state_fields(1,2) reach' races] script'
  have 2: "NamespaceRuntimeInit (race_os\<lparr>ans_namespace := take 2 (ans_namespace race_os)\<rparr>)
             loaded_state = None"
    by blast
  from 1 2 show ?thesis by blast
qed



text \<open>
  Claim C8: once \<^verbatim>\<open>NamespaceRuntimeInit\<close> has succeeded, a further call, whatever the
  environment answers, enters and leaves the critical section, returns \<^verbatim>\<open>TRUE\<close> and changes
  nothing else; so does every call made while \<^verbatim>\<open>PrivateNamespace\<close> is set.
  And the context is all or nothing: at load, and after every function of the file
  that returns, either \<^verbatim>\<open>PrivateNamespace\<close> is set and exactly the namespace, the boundary
  descriptor and the algorithm provider that the variables name are open, or
  \<^verbatim>\<open>PrivateNamespace\<close> is \<^verbatim>\<open>NULL\<close> and none of the three kinds of object is open.
\<close>

theorem context_all_or_nothing:
  "all_or_nothing initial_state
   \<and> (NamespaceRuntimeInit os s = Some (Inr (True, s1)) \<longrightarrow>
        NamespaceRuntimeInit os' s1 =
          Some (Inr (True, s1\<lparr>calls := calls s1 @ [EnterCriticalSection, LeaveCriticalSection]\<rparr>)))
   \<and> (Initializing s = CS n \<and> PrivateNamespace s \<noteq> NULL \<longrightarrow>
        NamespaceRuntimeInit os s =
          Some (Inr (True, s\<lparr>calls := calls s @ [EnterCriticalSection, LeaveCriticalSection]\<rparr>)))
   \<and> (all_or_nothing s \<longrightarrow>
        all_or_nothing (NamespaceInit s)
        \<and> (\<forall>r s'. NamespaceRuntimeInit os s = Some (Inr (r, s')) \<longrightarrow>
              all_or_nothing s' \<and> r = (PrivateNamespace s' \<noteq> NULL))
        \<and> (\<forall>r s'. NamespaceTakePoolMutex os Pool s = Some (Inr (r, s')) \<longrightarrow> all_or_nothing s')
        \<and> (\<forall>r s'. NamespaceTakeDriverInstallationMutex os s = Some (Inr (r, s')) \<longrightarrow>
              all_or_nothing s')
        \<and> all_or_nothing (NamespaceReleaseMutex os m s)
        \<and> (\<forall>s'. NamespaceDone s = Inr s' \<longrightarrow> all_or_nothing s' \<and> PrivateNamespace s' = NULL))"
proof (intro conjI impI allI)
  show "all_or_nothing initial_state"
    by (simp add: all_or_nothing_def initial_state_def context_objects_def)
next
  assume "NamespaceRuntimeInit os s = Some (Inr (True, s1))"
  then show "NamespaceRuntimeInit os' s1 =
          Some (Inr (True, s1\<lparr>calls := calls s1 @ [EnterCriticalSection, LeaveCriticalSection]\<rparr>))"
    by (rule init_twice)
next
  assume "Initializing s = CS n \<and> PrivateNamespace s \<noteq> NULL"
  then show "NamespaceRuntimeInit os s =
          Some (Inr (True, s\<lparr>calls := calls s @ [EnterCriticalSection, LeaveCriticalSection]\<rparr>))"
    by (simp add: init_fast_path)
next
  assume "all_or_nothing s"
  then show "all_or_nothing (NamespaceInit s)" by (simp add: NamespaceInit_keeps_all_or_nothing)
next
  fix r s'
  assume "all_or_nothing s" "NamespaceRuntimeInit os s = Some (Inr (r, s'))"
  from init_keeps_all_or_nothing [OF this]
  show "all_or_nothing s'" and "r = (PrivateNamespace s' \<noteq> NULL)" by simp_all
next
  fix r s'
  assume "all_or_nothing s" "NamespaceTakePoolMutex os Pool s = Some (Inr (r, s'))"
  then show "all_or_nothing s'" by (rule pool_keeps_all_or_nothing)
next
  fix r s'
  assume "all_or_nothing s" "NamespaceTakeDriverInstallationMutex os s = Some (Inr (r, s'))"
  then show "all_or_nothing s'" by (rule installation_keeps_all_or_nothing)
next
  assume "all_or_nothing s"
  then show "all_or_nothing (NamespaceReleaseMutex os m s)"
    by (simp add: release_keeps_all_or_nothing)
next
  fix s'
  assume "all_or_nothing s" "NamespaceDone s = Inr s'"
  from done_effect [OF this]
  show "all_or_nothing s'" and "PrivateNamespace s' = NULL" by simp_all
qed

theorem context_all_or_nothing_witness:
  "all_or_nothing initial_state \<and> all_or_nothing loaded_state
   \<and> all_or_nothing initialized_state \<and> PrivateNamespace initialized_state \<noteq> NULL
   \<and> NamespaceRuntimeInit test_os loaded_state = Some (Inr (True, initialized_state))
   \<and> NamespaceRuntimeInit denied_os initialized_state =
        Some (Inr (True, initialized_state
          \<lparr>calls := calls initialized_state @ [EnterCriticalSection, LeaveCriticalSection]\<rparr>))
   \<and> NamespaceRuntimeInit test_os initialized_state =
        Some (Inr (True, initialized_state
          \<lparr>calls := calls initialized_state @ [EnterCriticalSection, LeaveCriticalSection]\<rparr>))
   \<and> all_or_nothing torn_down_state \<and> PrivateNamespace torn_down_state = NULL
   \<and> (\<exists>s'. NamespaceTakePoolMutex test_os (L ''Pool'') loaded_state = Some (Inr (80, s'))
         \<and> all_or_nothing s')
   \<and> (\<exists>s'. NamespaceTakeDriverInstallationMutex test_os loaded_state = Some (Inr (80, s'))
         \<and> all_or_nothing s')
   \<and> all_or_nothing (NamespaceReleaseMutex test_os 80 initialized_state)"
proof -
  note inst0 = context_all_or_nothing [of test_os initial_state initialized_state denied_os 0
      "L ''Pool''" 80]
  note inst1 = context_all_or_nothing [of test_os loaded_state initialized_state denied_os 0
      "L ''Pool''" 80]
  note inst2 = context_all_or_nothing [of test_os initialized_state initialized_state denied_os 0
      "L ''Pool''" 80]
  from inst0 have a0: "all_or_nothing initial_state" and a1: "all_or_nothing loaded_state"
    by (simp_all add: loaded_state_def)
  from inst1 a1 run_test_init have a2: "all_or_nothing initialized_state"
    and p2: "PrivateNamespace initialized_state \<noteq> NULL"
    and twice: "NamespaceRuntimeInit denied_os initialized_state =
        Some (Inr (True, initialized_state
          \<lparr>calls := calls initialized_state @ [EnterCriticalSection, LeaveCriticalSection]\<rparr>))"
    by blast+
  from inst2 a2 run_test_done have d: "all_or_nothing torn_down_state"
    "PrivateNamespace torn_down_state = NULL"
    and rel: "all_or_nothing (NamespaceReleaseMutex test_os 80 initialized_state)" by blast+
  have "Initializing initialized_state = CS 0 \<and> PrivateNamespace initialized_state \<noteq> NULL"
    by (simp add: initialized_state_def)
  with inst2 have fast: "NamespaceRuntimeInit test_os initialized_state =
        Some (Inr (True, initialized_state
          \<lparr>calls := calls initialized_state @ [EnterCriticalSection, LeaveCriticalSection]\<rparr>))"
    by blast
  have "\<exists>s'. NamespaceTakePoolMutex test_os (L ''Pool'') loaded_state = Some (Inr (80, s'))"
    by (simp add: run_defs L_def)
  with inst1 a1 have pool: "\<exists>s'. NamespaceTakePoolMutex test_os (L ''Pool'') loaded_state
      = Some (Inr (80, s')) \<and> all_or_nothing s'" by blast
  have "\<exists>s'. NamespaceTakeDriverInstallationMutex test_os loaded_state = Some (Inr (80, s'))"
    by (simp add: run_defs L_def InstallationMutexName_def)
  with inst1 a1 have inst: "\<exists>s'. NamespaceTakeDriverInstallationMutex test_os loaded_state
      = Some (Inr (80, s')) \<and> all_or_nothing s'" by blast
  from a0 a1 a2 p2 twice fast run_test_init d rel pool inst show ?thesis by simp
qed

text \<open>
  Claim C9: after initialization and teardown, a further acquire succeeds by initializing
  again. \<^verbatim>\<open>NamespaceDone\<close> ends with \<^verbatim>\<open>DeleteCriticalSection\<close>, so straight after it both
  \<^verbatim>\<open>NamespaceRuntimeInit\<close> and \<^verbatim>\<open>NamespaceTakePoolMutex\<close> enter a deleted critical section.
  What holds: teardown leaves the context uninitialized with nothing open, and once
  \<^verbatim>\<open>NamespaceInit\<close> has initialized the critical section again, the initialization runs
  anew. When its steps succeed (the namespace is created or opened, after any number of
  turns that met the race) it leaves the context initialized; and when the steps of the
  acquire succeed as well (the hash, the normalization, the creation of the mutex and
  the wait), \<^verbatim>\<open>NamespaceTakePoolMutex\<close> returns the handle of the mutex and leaves the context
  initialized.
\<close>

theorem init_after_teardown:
  assumes "all_or_nothing s" and "NamespaceRuntimeInit os0 s = Some (Inr (True, s1))"
    and "NamespaceDone s1 = Inr s2"
  shows "PrivateNamespace s2 = NULL \<and> context_objects s2 = [] \<and> Initializing s2 = CS_Deleted
     \<and> NamespaceRuntimeInit os s2 = Some (Inl Invalid_critical_section)
     \<and> NamespaceTakePoolMutex os Pool s2 = Some (Inl Invalid_critical_section)
     \<and> (reaches_namespace_loop os \<and> ans_namespace os = races @ (create, opn) # rest
          \<and> (\<forall>a\<in>set races. transient_race a)
          \<and> (fst create \<noteq> NULL \<or> snd create = ERROR_ALREADY_EXISTS \<and> fst opn \<noteq> NULL) \<longrightarrow>
          (\<exists>s3. NamespaceRuntimeInit os (NamespaceInit s2) = Some (Inr (True, s3))
             \<and> PrivateNamespace s3 = (if fst create \<noteq> NULL then fst create else fst opn)
             \<and> PrivateNamespace s3 \<noteq> NULL \<and> all_or_nothing s3
             \<and> calls_since s2 s3 =
                  [InitializeCriticalSection, EnterCriticalSection, BCryptOpenAlgorithmProvider,
                   CreateWellKnownSid
                     (if IsLocalSystem os then WinLocalSystemSid else WinBuiltinAdministratorsSid),
                   CreateBoundaryDescriptorW (L ''WireGuard''),
                   AddSIDToBoundaryDescriptor (fst (ans_CreateBoundaryDescriptorW os))]
                  @ concat (replicate (length races)
                      [CreatePrivateNamespaceW (fst (snd (ans_AddSIDToBoundaryDescriptor os))) (L ''WireGuard''),
                       OpenPrivateNamespaceW (fst (snd (ans_AddSIDToBoundaryDescriptor os))) (L ''WireGuard'')])
                  @ (if fst create \<noteq> NULL then
                       [CreatePrivateNamespaceW (fst (snd (ans_AddSIDToBoundaryDescriptor os))) (L ''WireGuard''),
                        LeaveCriticalSection]
                     else
                       [CreatePrivateNamespaceW (fst (snd (ans_AddSIDToBoundaryDescriptor os))) (L ''WireGuard''),
                        OpenPrivateNamespaceW (fst (snd (ans_AddSIDToBoundaryDescriptor os))) (L ''WireGuard''),
                        LeaveCriticalSection])
             \<and> (hash_steps_succeed os \<and> fst (ans_CreateMutexW os) \<noteq> NULL
                  \<and> (ans_WaitForSingleObject os = WAIT_OBJECT_0
                       \<or> ans_WaitForSingleObject os = WAIT_ABANDONED)
                  \<and> NormalizeStringAlloc os NormalizationC Pool t = Some (Some (p, buf), t') \<longrightarrow>
                  (\<exists>s4. NamespaceTakePoolMutex os Pool (NamespaceInit s2)
                            = Some (Inr (fst (ans_CreateMutexW os), s4))
                     \<and> PrivateNamespace s4 = PrivateNamespace s3 \<and> all_or_nothing s4
                     \<and> objects s4 = Mutex (fst (ans_CreateMutexW os)) # objects s3))
             \<and> (\<forall>r s4. NamespaceTakePoolMutex os Pool (NamespaceInit s2) = Some (Inr (r, s4)) \<longrightarrow>
                   PrivateNamespace s4 = PrivateNamespace s3 \<and> all_or_nothing s4)))"
    (is "_ \<and> _ \<and> _ \<and> _ \<and> _ \<and> (?steps \<longrightarrow> (\<exists>s3. ?again s3))")
proof -
  from init_keeps_all_or_nothing [OF assms(1,2)] have a1: "all_or_nothing s1" by simp
  from done_effect [OF a1 assms(3)] have d: "all_or_nothing s2" "PrivateNamespace s2 = NULL"
    "context_objects s2 = []" "Initializing s2 = CS_Deleted" by simp_all
  have f1: "NamespaceRuntimeInit os s2 = Some (Inl Invalid_critical_section)"
    using d(4) by (simp add: init_invalid)
  then have f2: "NamespaceTakePoolMutex os Pool s2 = Some (Inl Invalid_critical_section)"
    by (simp add: NamespaceTakePoolMutex_def NamespaceTakePoolMutex_create_def)
  have again: "\<exists>s3. ?again s3" if steps: ?steps
  proof -
    from steps have reach: "reaches_namespace_loop os"
      and script: "ans_namespace os = races @ (create, opn) # rest"
      and races: "\<forall>a\<in>set races. transient_race a"
      and obtained: "fst create \<noteq> NULL \<or> snd create = ERROR_ALREADY_EXISTS \<and> fst opn \<noteq> NULL"
      by blast+
    have cs: "Initializing (NamespaceInit s2) = CS 0"
      and pn: "PrivateNamespace (NamespaceInit s2) = NULL"
      and cl: "calls (NamespaceInit s2) = calls s2 @ [InitializeCriticalSection]"
      using d(2) by (simp_all add: NamespaceInit_def os_call_defs)
    have a2: "all_or_nothing (NamespaceInit s2)"
      using d(1) by (simp add: NamespaceInit_keeps_all_or_nothing)
    from init_obtains_namespace [OF cs pn reach script races obtained]
    obtain s3 where run: "NamespaceRuntimeInit os (NamespaceInit s2) = Some (Inr (True, s3))"
      and pn3: "PrivateNamespace s3 = (if fst create \<noteq> NULL then fst create else fst opn)"
      and c3: "calls s3 = calls (NamespaceInit s2) @
          [EnterCriticalSection, BCryptOpenAlgorithmProvider,
           CreateWellKnownSid (if IsLocalSystem os then WinLocalSystemSid else WinBuiltinAdministratorsSid),
           CreateBoundaryDescriptorW (L ''WireGuard''),
           AddSIDToBoundaryDescriptor (fst (ans_CreateBoundaryDescriptorW os))]
          @ concat (replicate (length races)
              [CreatePrivateNamespaceW (fst (snd (ans_AddSIDToBoundaryDescriptor os))) (L ''WireGuard''),
               OpenPrivateNamespaceW (fst (snd (ans_AddSIDToBoundaryDescriptor os))) (L ''WireGuard'')])
          @ (if fst create \<noteq> NULL then
               [CreatePrivateNamespaceW (fst (snd (ans_AddSIDToBoundaryDescriptor os))) (L ''WireGuard''),
                LeaveCriticalSection]
             else
               [CreatePrivateNamespaceW (fst (snd (ans_AddSIDToBoundaryDescriptor os))) (L ''WireGuard''),
                OpenPrivateNamespaceW (fst (snd (ans_AddSIDToBoundaryDescriptor os))) (L ''WireGuard''),
                LeaveCriticalSection])"
      by (elim exE conjE)
    from init_keeps_all_or_nothing [OF a2 run] have a3: "all_or_nothing s3"
      and set3: "PrivateNamespace s3 \<noteq> NULL" by simp_all
    have pool: "PrivateNamespace s4 = PrivateNamespace s3 \<and> all_or_nothing s4"
      if p: "NamespaceTakePoolMutex os Pool (NamespaceInit s2) = Some (Inr (r, s4))" for r s4
    proof -
      from p obtain c where c: "NamespaceTakePoolMutex_create os Pool (NamespaceInit s2) = Some (Inr c)"
        by (auto simp: NamespaceTakePoolMutex_def split: option.splits sum.splits)
      from pool_create_context [OF c] run
      have ctx: "case c of Returned r s' \<Rightarrow> PrivateNamespace s' = PrivateNamespace s3
                 | Created m p h name s' \<Rightarrow> PrivateNamespace s' = PrivateNamespace s3"
        by (auto split: created.splits)
      have "PrivateNamespace s4 = PrivateNamespace s3"
      proof (cases c)
        case (Returned r1 s5)
        with p c ctx show ?thesis by (simp add: NamespaceTakePoolMutex_def)
      next
        case (Created m q h name s5)
        with p c have "NamespaceTakePoolMutex_wait os m q h s5 = (r, s4)"
          by (simp add: NamespaceTakePoolMutex_def)
        from pool_wait_context [OF this] ctx Created show ?thesis by simp
      qed
      with pool_keeps_all_or_nothing [OF a2 p] show ?thesis by simp
    qed
    have acquired: "\<exists>s4. NamespaceTakePoolMutex os Pool (NamespaceInit s2)
                            = Some (Inr (fst (ans_CreateMutexW os), s4))
                     \<and> PrivateNamespace s4 = PrivateNamespace s3 \<and> all_or_nothing s4
                     \<and> objects s4 = Mutex (fst (ans_CreateMutexW os)) # objects s3"
      if "hash_steps_succeed os \<and> fst (ans_CreateMutexW os) \<noteq> NULL
                  \<and> (ans_WaitForSingleObject os = WAIT_OBJECT_0
                       \<or> ans_WaitForSingleObject os = WAIT_ABANDONED)
                  \<and> NormalizeStringAlloc os NormalizationC Pool t = Some (Some (p, buf), t')"
    proof -
      from that have hs: "hash_steps_succeed os" and m: "fst (ans_CreateMutexW os) \<noteq> NULL"
        and w: "ans_WaitForSingleObject os = WAIT_OBJECT_0
                  \<or> ans_WaitForSingleObject os = WAIT_ABANDONED"
        and nm: "NormalizeStringAlloc os NormalizationC Pool t = Some (Some (p, buf), t')"
        by blast+
      from pool_acquired [OF run hs m w nm] obtain s4 where
        r: "NamespaceTakePoolMutex os Pool (NamespaceInit s2)
               = Some (Inr (fst (ans_CreateMutexW os), s4))"
        and o: "objects s4 = Mutex (fst (ans_CreateMutexW os)) # objects s3" by blast
      from pool [OF r] r o show ?thesis by blast
    qed
    have cc: "calls_since s2 s3 =
                  [InitializeCriticalSection, EnterCriticalSection, BCryptOpenAlgorithmProvider,
                   CreateWellKnownSid
                     (if IsLocalSystem os then WinLocalSystemSid else WinBuiltinAdministratorsSid),
                   CreateBoundaryDescriptorW (L ''WireGuard''),
                   AddSIDToBoundaryDescriptor (fst (ans_CreateBoundaryDescriptorW os))]
                  @ concat (replicate (length races)
                      [CreatePrivateNamespaceW (fst (snd (ans_AddSIDToBoundaryDescriptor os))) (L ''WireGuard''),
                       OpenPrivateNamespaceW (fst (snd (ans_AddSIDToBoundaryDescriptor os))) (L ''WireGuard'')])
                  @ (if fst create \<noteq> NULL then
                       [CreatePrivateNamespaceW (fst (snd (ans_AddSIDToBoundaryDescriptor os))) (L ''WireGuard''),
                        LeaveCriticalSection]
                     else
                       [CreatePrivateNamespaceW (fst (snd (ans_AddSIDToBoundaryDescriptor os))) (L ''WireGuard''),
                        OpenPrivateNamespaceW (fst (snd (ans_AddSIDToBoundaryDescriptor os))) (L ''WireGuard''),
                        LeaveCriticalSection])"
      unfolding calls_since_def c3 cl by simp
    have acquired': "hash_steps_succeed os \<and> fst (ans_CreateMutexW os) \<noteq> NULL
                  \<and> (ans_WaitForSingleObject os = WAIT_OBJECT_0
                       \<or> ans_WaitForSingleObject os = WAIT_ABANDONED)
                  \<and> NormalizeStringAlloc os NormalizationC Pool t = Some (Some (p, buf), t') \<longrightarrow>
                  (\<exists>s4. NamespaceTakePoolMutex os Pool (NamespaceInit s2)
                            = Some (Inr (fst (ans_CreateMutexW os), s4))
                     \<and> PrivateNamespace s4 = PrivateNamespace s3 \<and> all_or_nothing s4
                     \<and> objects s4 = Mutex (fst (ans_CreateMutexW os)) # objects s3)"
      using acquired by (rule impI)
    have pool': "\<forall>r s4. NamespaceTakePoolMutex os Pool (NamespaceInit s2) = Some (Inr (r, s4)) \<longrightarrow>
                   PrivateNamespace s4 = PrivateNamespace s3 \<and> all_or_nothing s4"
      using pool by blast
    show ?thesis
      by (rule exI [of _ s3]) (intro conjI run pn3 set3 a3 cc acquired' pool')
  qed
  have "?steps \<longrightarrow> (\<exists>s3. ?again s3)"
    using again by (rule impI)
  then show ?thesis
    by (intro conjI d(2) d(3) d(4) f1 f2)
qed

text \<open>
  Initialization in the test environment, teardown, \<^verbatim>\<open>NamespaceInit\<close>, and an acquire in the
  environment whose namespace loop meets the race twice and then opens the namespace.
\<close>

theorem init_after_teardown_witness:
  "\<exists>s3 s4.
     all_or_nothing loaded_state
   \<and> NamespaceRuntimeInit test_os loaded_state = Some (Inr (True, initialized_state))
   \<and> NamespaceDone initialized_state = Inr torn_down_state
   \<and> NamespaceRuntimeInit race_os torn_down_state = Some (Inl Invalid_critical_section)
   \<and> NamespaceRuntimeInit race_os (NamespaceInit torn_down_state) = Some (Inr (True, s3))
   \<and> PrivateNamespace s3 = 49 \<and> all_or_nothing s3
   \<and> calls_since torn_down_state s3 =
        [InitializeCriticalSection, EnterCriticalSection, BCryptOpenAlgorithmProvider,
         CreateWellKnownSid WinLocalSystemSid, CreateBoundaryDescriptorW (L ''WireGuard''),
         AddSIDToBoundaryDescriptor 32,
         CreatePrivateNamespaceW 33 (L ''WireGuard''), OpenPrivateNamespaceW 33 (L ''WireGuard''),
         CreatePrivateNamespaceW 33 (L ''WireGuard''), OpenPrivateNamespaceW 33 (L ''WireGuard''),
         CreatePrivateNamespaceW 33 (L ''WireGuard''), OpenPrivateNamespaceW 33 (L ''WireGuard''),
         LeaveCriticalSection]
   \<and> NamespaceTakePoolMutex race_os (L ''Pool'') (NamespaceInit torn_down_state) = Some (Inr (80, s4))
   \<and> PrivateNamespace s4 = 49 \<and> all_or_nothing s4 \<and> objects s4 = Mutex 80 # objects s3"
proof -
  have a: "all_or_nothing loaded_state"
    by (simp add: all_or_nothing_def context_objects_def loaded_state_fields)
  have fields: "IsLocalSystem race_os" "fst (ans_CreateBoundaryDescriptorW race_os) = 32"
    "fst (snd (ans_AddSIDToBoundaryDescriptor race_os)) = 33"
    "fst (ans_CreateMutexW race_os) = 80"
    by (simp_all add: race_os_def test_os_def)
  have norm: "\<exists>t'. NormalizeStringAlloc race_os NormalizationC (L ''Pool'') loaded_state
      = Some (Some (4096, L ''Pool'' @ [0]), t')"
    by (simp add: run_defs env_defs L_def)
  then obtain t' where n: "NormalizeStringAlloc race_os NormalizationC (L ''Pool'') loaded_state
      = Some (Some (4096, L ''Pool'' @ [0]), t')" ..
  have init_steps: "reaches_namespace_loop race_os
      \<and> ans_namespace race_os =
          [((NULL, ERROR_ALREADY_EXISTS), (NULL, ERROR_PATH_NOT_FOUND)),
           ((NULL, ERROR_ALREADY_EXISTS), (NULL, ERROR_PATH_NOT_FOUND))]
          @ ((NULL, ERROR_ALREADY_EXISTS), (49, 0)) # []
      \<and> (\<forall>a\<in>set [((NULL, ERROR_ALREADY_EXISTS), (NULL, ERROR_PATH_NOT_FOUND)),
                   ((NULL, ERROR_ALREADY_EXISTS), (NULL, ERROR_PATH_NOT_FOUND))]. transient_race a)
      \<and> (fst (NULL :: HANDLE, ERROR_ALREADY_EXISTS) \<noteq> NULL
           \<or> snd (NULL :: HANDLE, ERROR_ALREADY_EXISTS) = ERROR_ALREADY_EXISTS
             \<and> fst (49 :: HANDLE, 0 :: DWORD) \<noteq> NULL)"
    by (simp add: race_os_def test_os_def reaches_namespace_loop_def BCRYPT_SUCCESS_def
          transient_race_def)
  have pool_steps: "hash_steps_succeed race_os \<and> fst (ans_CreateMutexW race_os) \<noteq> NULL
      \<and> (ans_WaitForSingleObject race_os = WAIT_OBJECT_0
           \<or> ans_WaitForSingleObject race_os = WAIT_ABANDONED)
      \<and> NormalizeStringAlloc race_os NormalizationC (L ''Pool'') loaded_state
           = Some (Some (4096, L ''Pool'' @ [0]), t')"
    using n by (simp add: race_os_def test_os_def hash_steps_succeed_def BCRYPT_SUCCESS_def)
  note inst = init_after_teardown [OF a run_test_init run_test_done,
      where os = race_os and Pool = "L ''Pool''"
        and races = "[((NULL, ERROR_ALREADY_EXISTS), (NULL, ERROR_PATH_NOT_FOUND)),
                      ((NULL, ERROR_ALREADY_EXISTS), (NULL, ERROR_PATH_NOT_FOUND))]"
        and create = "(NULL, ERROR_ALREADY_EXISTS)" and opn = "(49, 0)" and rest = "[]"
        and t = loaded_state and p = 4096 and buf = "L ''Pool'' @ [0]" and t' = t']
  note faults = inst [THEN conjunct2, THEN conjunct2, THEN conjunct2, THEN conjunct1]
  note again = inst [THEN conjunct2, THEN conjunct2, THEN conjunct2, THEN conjunct2, THEN conjunct2,
    THEN mp, OF init_steps]
  from again show ?thesis
  proof (rule exE, goal_cases)
    case big: (1 s3)
    note run = big [THEN conjunct1]
    from big [THEN conjunct2, THEN conjunct1] have pn3: "PrivateNamespace s3 = 49" by simp
    note a3 = big [THEN conjunct2, THEN conjunct2, THEN conjunct2, THEN conjunct1]
    have c3: "calls_since torn_down_state s3 =
        [InitializeCriticalSection, EnterCriticalSection, BCryptOpenAlgorithmProvider,
         CreateWellKnownSid WinLocalSystemSid, CreateBoundaryDescriptorW (L ''WireGuard''),
         AddSIDToBoundaryDescriptor 32,
         CreatePrivateNamespaceW 33 (L ''WireGuard''), OpenPrivateNamespaceW 33 (L ''WireGuard''),
         CreatePrivateNamespaceW 33 (L ''WireGuard''), OpenPrivateNamespaceW 33 (L ''WireGuard''),
         CreatePrivateNamespaceW 33 (L ''WireGuard''), OpenPrivateNamespaceW 33 (L ''WireGuard''),
         LeaveCriticalSection]"
      using big [THEN conjunct2, THEN conjunct2, THEN conjunct2, THEN conjunct2, THEN conjunct1]
      by (simp add: fields)
    note pool = big [THEN conjunct2, THEN conjunct2, THEN conjunct2, THEN conjunct2, THEN conjunct2,
      THEN conjunct1, THEN mp, OF pool_steps]
    from pool show ?case
    proof (rule exE, goal_cases)
      case big4: (1 s4)
      from big4 [THEN conjunct1] have r4:
        "NamespaceTakePoolMutex race_os (L ''Pool'') (NamespaceInit torn_down_state)
           = Some (Inr (80, s4))"
        by (simp add: fields)
      from big4 [THEN conjunct2, THEN conjunct1] pn3 have p4: "PrivateNamespace s4 = 49" by simp
      note a4 = big4 [THEN conjunct2, THEN conjunct2, THEN conjunct1]
      from big4 [THEN conjunct2, THEN conjunct2, THEN conjunct2] have o4:
        "objects s4 = Mutex 80 # objects s3" by (simp add: fields)
      show ?case
        by (intro exI [of _ s3] exI [of _ s4] conjI a run_test_init run_test_done faults run pn3 a3
              c3 r4 p4 a4 o4)
    qed
  qed
qed

text \<open>The sequence of the claim in the test environment: the acquire after teardown faults.\<close>

theorem init_after_teardown_counterexample:
  "NamespaceRuntimeInit test_os loaded_state = Some (Inr (True, initialized_state))
   \<and> NamespaceDone initialized_state = Inr torn_down_state
   \<and> NamespaceTakePoolMutex test_os (L ''Pool'') torn_down_state = Some (Inl Invalid_critical_section)"
  by (simp add: run_test_init run_test_done)
     (simp add: NamespaceTakePoolMutex_def NamespaceTakePoolMutex_create_def NamespaceRuntimeInit_def
        os_EnterCriticalSection_def torn_down_state_def)

text \<open>
  Claim C10: \<^verbatim>\<open>NamespaceReleaseMutex\<close> calls \<^verbatim>\<open>ReleaseMutex\<close> and then \<^verbatim>\<open>CloseHandle\<close> on the handle
  it is given, whatever the two calls answer, and returns nothing; it touches none of
  the file's variables.
\<close>

theorem NamespaceReleaseMutex_unconditional:
  "calls (NamespaceReleaseMutex os Mutex' s) = calls s @ [ReleaseMutex Mutex', CloseHandle Mutex']
   \<and> PrivateNamespace (NamespaceReleaseMutex os Mutex' s) = PrivateNamespace s
   \<and> BoundaryDescriptor (NamespaceReleaseMutex os Mutex' s) = BoundaryDescriptor s
   \<and> AlgProvider (NamespaceReleaseMutex os Mutex' s) = AlgProvider s
   \<and> Initializing (NamespaceReleaseMutex os Mutex' s) = Initializing s"
  by (cases "ans_ReleaseMutex os"; cases "ans_CloseHandle os")
     (simp add: NamespaceReleaseMutex_def os_call_defs Let_def)

end
